theory Spec2Isabelle
  imports Main "HOL-Library.List_Lexorder" "HOL-Library.Char_ord"
begin

section \<open>SQLite values, tables and the store\<close>

text \<open>
  The notebook \<^verbatim>\<open>xx_1_Machine_Learning_Labels.ipynb\<close> builds recidivism labels with a
  script of \<^verbatim>\<open>drop table\<close> / \<^verbatim>\<open>create table ... as select\<close> statements that the
  function \<^verbatim>\<open>create_labels\<close> runs through the module-global cursor \<^verbatim>\<open>cur\<close>, and then
  reads the label table back through its argument \<^verbatim>\<open>conn\<close>.

  A cell of a table holds NULL, an integer or a text (a byte string). Floating point
  values and blobs do not occur in what the script computes and are left out.
\<close>

datatype sqlval = VNull | VInt int | VText string

text \<open>
  A table is its column names and its rows, in scan order. SQL leaves the order of the
  rows of a query open; the model fixes one, and no statement below depends on it.
  Names of tables and columns are kept as SQLite compares them (folded to one case); every
  name the script writes is lower-case.
\<close>

record table =
  columns :: "string list"
  rows :: "sqlval list list"

type_synonym schema = "string \<rightharpoonup> table"

text \<open>
  The store: every database file has a main schema, every connection has a schema of
  temporary tables of its own and is opened on one file. \<open>cur\<close> is the connection that
  the global cursor of the notebook (\<^verbatim>\<open>cur = conn.cursor()\<close>, line 48) belongs to.
  The model covers calls made while cursor and connection are open.
\<close>

record world =
  main_db :: "string \<Rightarrow> schema"
  temp_db :: "nat \<Rightarrow> schema"
  db_of :: "nat \<Rightarrow> string"
  cur :: nat

datatype error =
    ParserError
  | NoSuchTable string
  | NoSuchColumn string
  | TableExists string
  | LiteralNotModelled

text \<open>
  Three library functions are used and are not part of the repository; they are
  parameters of the model. Their types record what the libraries promise:
  \<^item> \<open>parse_year s\<close> is \<^verbatim>\<open>dateutil.parser.parse(s, fuzzy = True).year\<close>, \<open>None\<close> when
    \<^verbatim>\<open>parse\<close> raises;
  \<^item> \<open>sql_date v\<close> is SQLite's \<^verbatim>\<open>date(v)\<close>: a text, or NULL (\<open>None\<close>); it never raises;
  \<^item> \<open>sql_cast_integer v\<close> is SQLite's \<^verbatim>\<open>cast(v as integer)\<close>: an integer, or NULL.
\<close>

record libs =
  parse_year :: "string \<Rightarrow> nat option"
  sql_date :: "sqlval \<Rightarrow> string option"
  sql_cast_integer :: "sqlval \<Rightarrow> int option"

subsection \<open>Name resolution, drop and create\<close>

text \<open>An unqualified table name is looked up in the connection's temporary schema
  first and in the main schema of its file second.\<close>

definition resolve :: "world \<Rightarrow> nat \<Rightarrow> string \<Rightarrow> table option" where
  "resolve w c n =
     (case temp_db w c n of
        Some t \<Rightarrow> Some t
      | None \<Rightarrow> main_db w (db_of w c) n)"

definition main_has :: "world \<Rightarrow> string \<Rightarrow> bool" where
  "main_has w n = (main_db w (db_of w (cur w)) n \<noteq> None)"

definition temp_has :: "world \<Rightarrow> string \<Rightarrow> bool" where
  "temp_has w n = (temp_db w (cur w) n \<noteq> None)"

definition put_main :: "string \<Rightarrow> table option \<Rightarrow> world \<Rightarrow> world" where
  "put_main n t w =
     w\<lparr>main_db := (main_db w)(db_of w (cur w) := (main_db w (db_of w (cur w)))(n := t))\<rparr>"

definition put_temp :: "string \<Rightarrow> table option \<Rightarrow> world \<Rightarrow> world" where
  "put_temp n t w =
     w\<lparr>temp_db := (temp_db w)(cur w := (temp_db w (cur w))(n := t))\<rparr>"

text \<open>\<^verbatim>\<open>drop table if exists n\<close>, run through \<open>cur\<close>: removes the table the name resolves
  to, and does nothing when there is none.\<close>

definition drop_table_if_exists :: "string \<Rightarrow> world \<Rightarrow> error + world" where
  "drop_table_if_exists n w =
     Inr (if temp_has w n then put_temp n None w else put_main n None w)"

text \<open>\<^verbatim>\<open>create table n as ...\<close> makes a table of the main schema and fails when the main
  schema has the name; \<^verbatim>\<open>create temp table n as ...\<close> does the same in the temporary
  schema.\<close>

definition create_table :: "string \<Rightarrow> table \<Rightarrow> world \<Rightarrow> error + world" where
  "create_table n t w =
     (if main_has w n then Inl (TableExists n) else Inr (put_main n (Some t) w))"

definition create_temp_table :: "string \<Rightarrow> table \<Rightarrow> world \<Rightarrow> error + world" where
  "create_temp_table n t w =
     (if temp_has w n then Inl (TableExists n) else Inr (put_temp n (Some t) w))"

text \<open>\<^verbatim>\<open>executescript\<close> runs the statements in order and stops at the first that fails;
  there is no transaction around the script, so the store keeps what the earlier
  statements did.\<close>

fun run_statements :: "(world \<Rightarrow> error + world) list \<Rightarrow> world \<Rightarrow> world \<times> error option" where
  "run_statements [] w = (w, None)"
| "run_statements (f # fs) w =
     (case f w of
        Inl e \<Rightarrow> (w, Some e)
      | Inr w' \<Rightarrow> run_statements fs w')"

section \<open>The queries of the script\<close>

subsection \<open>Three-valued conditions\<close>

text \<open>A comparison with NULL is unknown (\<open>None\<close>); a \<^verbatim>\<open>where\<close> or \<^verbatim>\<open>on\<close> clause keeps a
  row only when its condition is true. Texts compare byte by byte (\<^verbatim>\<open>memcmp\<close>, a
  proper prefix first), which is the lexicographic order of \<open>string\<close>.\<close>

fun sql_and :: "bool option \<Rightarrow> bool option \<Rightarrow> bool option" where
  "sql_and (Some False) _ = Some False"
| "sql_and _ (Some False) = Some False"
| "sql_and (Some True) (Some True) = Some True"
| "sql_and _ _ = None"

definition text_ge :: "string option \<Rightarrow> string \<Rightarrow> bool option" where
  "text_ge x lit = map_option (\<lambda>s. lit \<le> s) x"

definition text_le :: "string option \<Rightarrow> string \<Rightarrow> bool option" where
  "text_le x lit = map_option (\<lambda>s. s \<le> lit) x"

definition int_eq :: "int option \<Rightarrow> int \<Rightarrow> bool option" where
  "int_eq x k = map_option (\<lambda>i. i = k) x"

definition sql_eq :: "sqlval \<Rightarrow> sqlval \<Rightarrow> bool option" where
  "sql_eq a b = (if a = VNull \<or> b = VNull then None else Some (a = b))"

definition where_true :: "bool option \<Rightarrow> bool" where
  "where_true c = (c = Some True)"

subsection \<open>Reading the source relation\<close>

text \<open>A row of \<^verbatim>\<open>sentences\<close>, as far as the script reads it:
  \<^verbatim>\<open>inmate_doc_number\<close>, \<^verbatim>\<open>inmate_sentence_component\<close>,
  \<^verbatim>\<open>[sentence_begin_date_(for_max)]\<close> and \<^verbatim>\<open>actual_sentence_end_date\<close>.\<close>

type_synonym sentence = "sqlval \<times> sqlval \<times> sqlval \<times> sqlval"

fun column_index :: "string list \<Rightarrow> string \<Rightarrow> nat option" where
  "column_index [] n = None"
| "column_index (c # cs) n = (if c = n then Some 0 else map_option Suc (column_index cs n))"

definition cell :: "sqlval list \<Rightarrow> nat \<Rightarrow> sqlval" where
  "cell r k = (if k < length r then r ! k else VNull)"

definition from_sentences :: "world \<Rightarrow> error + sentence list" where
  "from_sentences w =
     (case resolve w (cur w) ''sentences'' of
        None \<Rightarrow> Inl (NoSuchTable ''sentences'')
      | Some t \<Rightarrow>
     (case column_index (columns t) ''inmate_doc_number'' of
        None \<Rightarrow> Inl (NoSuchColumn ''inmate_doc_number'')
      | Some a \<Rightarrow>
     (case column_index (columns t) ''inmate_sentence_component'' of
        None \<Rightarrow> Inl (NoSuchColumn ''inmate_sentence_component'')
      | Some b \<Rightarrow>
     (case column_index (columns t) ''sentence_begin_date_(for_max)'' of
        None \<Rightarrow> Inl (NoSuchColumn ''sentence_begin_date_(for_max)'')
      | Some c \<Rightarrow>
     (case column_index (columns t) ''actual_sentence_end_date'' of
        None \<Rightarrow> Inl (NoSuchColumn ''actual_sentence_end_date'')
      | Some d \<Rightarrow>
          Inr (map (\<lambda>r. (cell r a, cell r b, cell r c, cell r d)) (rows t)))))))"

subsection \<open>The five derived relations\<close>

text \<open>
  Each \<^verbatim>\<open>from\<close> of the script, the first apart, names a table that the script has
  created a few statements before through the same cursor. The drop before a creation
  removes a temporary table of the name if there is one, and a creation in the main
  schema fails while the name is taken there, so once the creation has succeeded the
  name resolves to the new table (\<open>script_tables_by_name\<close> below). The queries are
  therefore written on the relations themselves. Rows are tuples of the selected
  columns, in the order of the \<^verbatim>\<open>select\<close> list.
\<close>

text \<open>\<^verbatim>\<open>sentences_prep\<close> (lines 280-285): columns \<^verbatim>\<open>inmate_doc_number\<close>,
  \<^verbatim>\<open>sentence_component\<close>, \<^verbatim>\<open>sentence_begin_date\<close>, \<^verbatim>\<open>sentence_end_date\<close>.\<close>

type_synonym prep_row = "sqlval \<times> int option \<times> string option \<times> string option"

definition sentences_prep :: "libs \<Rightarrow> sentence list \<Rightarrow> prep_row list" where
  "sentences_prep L src =
     map (\<lambda>(i, c, b, e). (i, sql_cast_integer L c, sql_date L b, sql_date L e)) src"

text \<open>\<^verbatim>\<open>release_dates_2000_<end_x_year>\<close> (lines 288-291).\<close>

definition release_dates :: "string \<Rightarrow> prep_row list \<Rightarrow> (sqlval \<times> string option) list" where
  "release_dates features_end prep =
     map (\<lambda>(i, c, b, e). (i, e))
       (filter (\<lambda>(i, c, b, e).
          where_true (sql_and (text_ge e ''2000-01-01'') (text_le e features_end))) prep)"

text \<open>\<^verbatim>\<open>last_exit_2000_<end_x_year>\<close> (lines 294-297). \<^verbatim>\<open>max\<close> skips NULL and is NULL
  on a group without any other value; \<^verbatim>\<open>group by\<close> puts the rows with a NULL key into
  one group.\<close>

fun sql_max2 :: "string option \<Rightarrow> string option \<Rightarrow> string option" where
  "sql_max2 None y = y"
| "sql_max2 (Some a) None = Some a"
| "sql_max2 (Some a) (Some b) = Some (max a b)"

definition sql_max :: "string option list \<Rightarrow> string option" where
  "sql_max xs = foldr sql_max2 xs None"

definition last_exit :: "(sqlval \<times> string option) list \<Rightarrow> (sqlval \<times> string option) list" where
  "last_exit rel =
     map (\<lambda>i. (i, sql_max (map snd (filter (\<lambda>r. fst r = i) rel))))
       (remdups (map fst rel))"

text \<open>\<^verbatim>\<open>admit_<start_y_year>_<end_y_year>\<close> (lines 300-303).\<close>

definition admit ::
  "string \<Rightarrow> string \<Rightarrow> prep_row list \<Rightarrow> (sqlval \<times> int option \<times> string option) list" where
  "admit prediction_start prediction_end prep =
     map (\<lambda>(i, c, b, e). (i, c, b))
       (filter (\<lambda>(i, c, b, e).
          where_true
            (sql_and (sql_and (text_ge b prediction_start) (text_le b prediction_end))
               (int_eq c 1))) prep)"

text \<open>\<^verbatim>\<open>recidivism_<start_y_year>_<end_y_year>\<close> (lines 306-310): the left join keeps
  every row of the left table, once per matching row of the right table and once with
  NULL for the right columns when nothing matches.\<close>

definition case_when_null :: "string option \<Rightarrow> int" where
  "case_when_null b = (if b = None then 0 else 1)"

definition recidivism ::
  "(sqlval \<times> string option) list \<Rightarrow> (sqlval \<times> int option \<times> string option) list \<Rightarrow>
   (sqlval \<times> string option \<times> string option \<times> int) list" where
  "recidivism r a =
     concat (map (\<lambda>(i, e).
       (let ms = filter (\<lambda>(j, c, b). where_true (sql_eq i j)) a
        in if ms = [] then [(i, e, None, case_when_null None)]
           else map (\<lambda>(j, c, b). (i, e, b, case_when_null b)) ms)) r)"

text \<open>\<^verbatim>\<open>recidivism_labels_<start_y_year>_<end_y_year>\<close> (lines 313-315).\<close>

definition recidivism_labels ::
  "(sqlval \<times> string option \<times> string option \<times> int) list \<Rightarrow> (sqlval \<times> int) list" where
  "recidivism_labels rc = remdups (map (\<lambda>(i, e, b, l). (i, l)) rc)"

subsection \<open>The relations as stored tables\<close>

definition of_text :: "string option \<Rightarrow> sqlval" where
  "of_text x = (case x of None \<Rightarrow> VNull | Some s \<Rightarrow> VText s)"

definition of_int_opt :: "int option \<Rightarrow> sqlval" where
  "of_int_opt x = (case x of None \<Rightarrow> VNull | Some i \<Rightarrow> VInt i)"

definition prep_table :: "prep_row list \<Rightarrow> table" where
  "prep_table prep =
     \<lparr>columns = [''inmate_doc_number'', ''sentence_component'', ''sentence_begin_date'',
                 ''sentence_end_date''],
      rows = map (\<lambda>(i, c, b, e). [i, of_int_opt c, of_text b, of_text e]) prep\<rparr>"

definition release_table :: "(sqlval \<times> string option) list \<Rightarrow> table" where
  "release_table rel =
     \<lparr>columns = [''inmate_doc_number'', ''sentence_end_date''],
      rows = map (\<lambda>(i, e). [i, of_text e]) rel\<rparr>"

definition admit_table :: "(sqlval \<times> int option \<times> string option) list \<Rightarrow> table" where
  "admit_table a =
     \<lparr>columns = [''inmate_doc_number'', ''sentence_component'', ''sentence_begin_date''],
      rows = map (\<lambda>(i, c, b). [i, of_int_opt c, of_text b]) a\<rparr>"

definition recidivism_table ::
  "(sqlval \<times> string option \<times> string option \<times> int) list \<Rightarrow> table" where
  "recidivism_table rc =
     \<lparr>columns = [''inmate_doc_number'', ''sentence_end_date'', ''sentence_begin_date'',
                 ''recidivism''],
      rows = map (\<lambda>(i, e, b, l). [i, of_text e, of_text b, VInt l]) rc\<rparr>"

definition labels_table :: "(sqlval \<times> int) list \<Rightarrow> table" where
  "labels_table ls =
     \<lparr>columns = [''inmate_doc_number'', ''recidivism''],
      rows = map (\<lambda>(i, l). [i, VInt l]) ls\<rparr>"

section \<open>\<^verbatim>\<open>create_labels\<close>\<close>

subsection \<open>Table names\<close>

text \<open>Python's \<^verbatim>\<open>str.format\<close> writes the year, an \<^verbatim>\<open>int\<close>, in decimal.\<close>

definition digit_char :: "nat \<Rightarrow> char" where
  "digit_char n = ''0123456789'' ! (n mod 10)"

fun str_nat :: "nat \<Rightarrow> string" where
  "str_nat n = (if n < 10 then [digit_char n] else str_nat (n div 10) @ [digit_char (n mod 10)])"

definition release_dates_name :: "nat \<Rightarrow> string" where
  "release_dates_name end_x_year = ''release_dates_2000_'' @ str_nat end_x_year"

definition last_exit_name :: "nat \<Rightarrow> string" where
  "last_exit_name end_x_year = ''last_exit_2000_'' @ str_nat end_x_year"

definition admit_name :: "nat \<Rightarrow> nat \<Rightarrow> string" where
  "admit_name start_y_year end_y_year =
     ''admit_'' @ str_nat start_y_year @ ''_'' @ str_nat end_y_year"

definition recidivism_name :: "nat \<Rightarrow> nat \<Rightarrow> string" where
  "recidivism_name start_y_year end_y_year =
     ''recidivism_'' @ str_nat start_y_year @ ''_'' @ str_nat end_y_year"

definition labels_name :: "nat \<Rightarrow> nat \<Rightarrow> string" where
  "labels_name start_y_year end_y_year =
     ''recidivism_labels_'' @ str_nat start_y_year @ ''_'' @ str_nat end_y_year"

subsection \<open>The script\<close>

text \<open>The second statement (lines 280-285) is the only one that reads a table the script
  has not made. SQLite rejects the name of the new table before it looks at the
  \<^verbatim>\<open>select\<close>.\<close>

definition create_sentences_prep :: "libs \<Rightarrow> world \<Rightarrow> error + world \<times> prep_row list" where
  "create_sentences_prep L w =
     (if main_has w ''sentences_prep'' then Inl (TableExists ''sentences_prep'')
      else case from_sentences w of
        Inl e \<Rightarrow> Inl e
      | Inr src \<Rightarrow>
          (let prep = sentences_prep L src
           in Inr (put_main ''sentences_prep'' (Some (prep_table prep)) w, prep)))"

definition executescript ::
  "libs \<Rightarrow> string \<Rightarrow> string \<Rightarrow> string \<Rightarrow> nat \<Rightarrow> nat \<Rightarrow> nat \<Rightarrow> world \<Rightarrow> world \<times> error option" where
  "executescript L features_end prediction_start prediction_end
       end_x_year start_y_year end_y_year w =
     (case drop_table_if_exists ''sentences_prep'' w of
        Inl e \<Rightarrow> (w, Some e)
      | Inr w1 \<Rightarrow>
     (case create_sentences_prep L w1 of
        Inl e \<Rightarrow> (w1, Some e)
      | Inr (w2, prep) \<Rightarrow>
          (let rel = release_dates features_end prep;
               lex = last_exit rel;
               adm = admit prediction_start prediction_end prep;
               rcd = recidivism lex adm;
               lab = recidivism_labels rcd
           in run_statements
                [drop_table_if_exists (release_dates_name end_x_year),
                 create_temp_table (release_dates_name end_x_year) (release_table rel),
                 drop_table_if_exists (last_exit_name end_x_year),
                 create_temp_table (last_exit_name end_x_year) (release_table lex),
                 drop_table_if_exists (admit_name start_y_year end_y_year),
                 create_temp_table (admit_name start_y_year end_y_year) (admit_table adm),
                 drop_table_if_exists (recidivism_name start_y_year end_y_year),
                 create_temp_table (recidivism_name start_y_year end_y_year)
                   (recidivism_table rcd),
                 drop_table_if_exists (labels_name start_y_year end_y_year),
                 create_table (labels_name start_y_year end_y_year) (labels_table lab)]
                w2)))"

subsection \<open>The function\<close>

text \<open>
  The three arguments are pasted into the script between single quotes. With a quote
  (or a NUL) inside an argument the text that reaches SQLite is no longer the script
  above; such calls are outside the model and answer \<open>LiteralNotModelled\<close>.
\<close>

definition literal_ok :: "string \<Rightarrow> bool" where
  "literal_ok s = (CHR 0x27 \<notin> set s \<and> CHR 0x00 \<notin> set s)"

text \<open>\<^verbatim>\<open>pd.read_sql('select * from ...', conn)\<close>: the read goes through \<open>conn\<close>.\<close>

definition read_sql :: "string \<Rightarrow> nat \<Rightarrow> world \<Rightarrow> error + table" where
  "read_sql n conn w =
     (case resolve w conn n of
        None \<Rightarrow> Inl (NoSuchTable n)
      | Some t \<Rightarrow> Inr t)"

definition create_labels ::
  "libs \<Rightarrow> world \<Rightarrow> string \<Rightarrow> string \<Rightarrow> string \<Rightarrow> nat \<Rightarrow> world \<times> (error + table)" where
  "create_labels L w features_end prediction_start prediction_end conn =
     (case parse_year L features_end of
        None \<Rightarrow> (w, Inl ParserError)
      | Some end_x_year \<Rightarrow>
     (case parse_year L prediction_start of
        None \<Rightarrow> (w, Inl ParserError)
      | Some start_y_year \<Rightarrow>
     (case parse_year L prediction_end of
        None \<Rightarrow> (w, Inl ParserError)
      | Some end_y_year \<Rightarrow>
          if \<not> (literal_ok features_end \<and> literal_ok prediction_start \<and>
                 literal_ok prediction_end)
          then (w, Inl LiteralNotModelled)
          else
            (case executescript L features_end prediction_start prediction_end
                    end_x_year start_y_year end_y_year w of
               (w', Some e) \<Rightarrow> (w', Inl e)
             | (w', None) \<Rightarrow>
                 (w', read_sql (labels_name start_y_year end_y_year) conn w')))))"

section \<open>Calendar dates in SQLite's text form\<close>

text \<open>
  \<^verbatim>\<open>date()\<close> writes a day as \<^verbatim>\<open>YYYY-MM-DD\<close>, and the notebook passes its window
  bounds in the same form. A day is (year, month, day of month).
\<close>

type_synonym date = "nat \<times> nat \<times> nat"

definition leap_year :: "nat \<Rightarrow> bool" where
  "leap_year y = (y mod 4 = 0 \<and> (y mod 100 \<noteq> 0 \<or> y mod 400 = 0))"

definition days_in_month :: "nat \<Rightarrow> nat \<Rightarrow> nat" where
  "days_in_month y m =
     (if m = 2 then (if leap_year y then 29 else 28)
      else if m = 4 \<or> m = 6 \<or> m = 9 \<or> m = 11 then 30 else 31)"

definition valid_date :: "date \<Rightarrow> bool" where
  "valid_date dt =
     (case dt of (y, m, d) \<Rightarrow>
        y \<le> 9999 \<and> 1 \<le> m \<and> m \<le> 12 \<and> 1 \<le> d \<and> d \<le> days_in_month y m)"

definition pad2 :: "nat \<Rightarrow> string" where
  "pad2 n = [digit_char (n div 10 mod 10), digit_char (n mod 10)]"

definition pad4 :: "nat \<Rightarrow> string" where
  "pad4 n = [digit_char (n div 1000 mod 10), digit_char (n div 100 mod 10),
             digit_char (n div 10 mod 10), digit_char (n mod 10)]"

definition iso_text :: "date \<Rightarrow> string" where
  "iso_text dt = (case dt of (y, m, d) \<Rightarrow> pad4 y @ ''-'' @ pad2 m @ ''-'' @ pad2 d)"

definition next_day :: "date \<Rightarrow> date" where
  "next_day dt =
     (case dt of (y, m, d) \<Rightarrow>
        if d < days_in_month y m then (y, m, d + 1)
        else if m < 12 then (y, m + 1, 1)
        else (y + 1, 1, 1))"

definition digit_value :: "char \<Rightarrow> nat option" where
  "digit_value c = map_of (zip ''0123456789'' [0, 1, 2, 3, 4, 5, 6, 7, 8, 9]) c"

definition digits_value :: "string \<Rightarrow> nat option" where
  "digits_value s =
     foldl (\<lambda>acc c. case (acc, digit_value c) of
                       (Some a, Some v) \<Rightarrow> Some (10 * a + v)
                     | _ \<Rightarrow> None) (Some 0) s"

definition iso_parse :: "string \<Rightarrow> date option" where
  "iso_parse s =
     (if length s = 10 \<and> s ! 4 = CHR ''-'' \<and> s ! 7 = CHR ''-'' then
        (case (digits_value (take 4 s), digits_value (take 2 (drop 5 s)),
               digits_value (drop 8 s)) of
           (Some y, Some m, Some d) \<Rightarrow> if valid_date (y, m, d) then Some (y, m, d) else None
         | _ \<Rightarrow> None)
      else None)"

text \<open>
  One instance of the library parameters, for running the model on concrete stores. It
  answers as \<^verbatim>\<open>dateutil\<close> and SQLite do on what the notebook uses: a day of the calendar
  written \<^verbatim>\<open>YYYY-MM-DD\<close>, an integer cell, NULL, and text that is no time value at all
  (for which \<^verbatim>\<open>parse\<close> raises and \<^verbatim>\<open>date()\<close> is NULL). The other inputs that the
  libraries understand (times of day, Julian day numbers, month names, day numbers past
  the end of a month, signs and blanks before a number) are not part of it: on
  \<^verbatim>\<open>2005-06-31\<close>, on \<^verbatim>\<open>2005-06-01 10:00:00\<close> or on a Julian day number \<^verbatim>\<open>date()\<close>
  returns a day and \<open>iso_date\<close> answers \<open>None\<close>. The instance is applied below to
  the fields of the stores of this file only, on each of which it answers as SQLite
  does; the general statements are about every \<open>L\<close>.
\<close>

definition iso_year :: "string \<Rightarrow> nat option" where
  "iso_year s =
     (case iso_parse s of
        None \<Rightarrow> None
      | Some (y, m, d) \<Rightarrow> if 1 \<le> y then Some y else None)"

definition iso_date :: "sqlval \<Rightarrow> string option" where
  "iso_date v =
     (case v of
        VText s \<Rightarrow> map_option iso_text (iso_parse s)
      | _ \<Rightarrow> None)"

definition plain_cast_integer :: "sqlval \<Rightarrow> int option" where
  "plain_cast_integer v =
     (case v of
        VNull \<Rightarrow> None
      | VInt i \<Rightarrow> Some i
      | VText s \<Rightarrow>
          Some (case digits_value (takeWhile (\<lambda>c. digit_value c \<noteq> None) s) of
                  Some n \<Rightarrow> int n
                | None \<Rightarrow> 0))"

definition iso_libs :: libs where
  "iso_libs = \<lparr>parse_year = iso_year, sql_date = iso_date,
                sql_cast_integer = plain_cast_integer\<rparr>"

text \<open>
  Stores to run the model on. Connection 0 is the notebook's: it is opened on
  \<^verbatim>\<open>ncdoc.db\<close>, whose only table is \<^verbatim>\<open>sentences\<close>, and the global cursor belongs to
  it. Every other connection number stands for a connection to another database, which
  is empty. Nobody has temporary tables.
\<close>

definition sentences_columns :: "string list" where
  "sentences_columns =
     [''inmate_doc_number'', ''inmate_sentence_component'',
      ''sentence_begin_date_(for_max)'', ''actual_sentence_end_date'']"

definition notebook_world :: "sqlval list list \<Rightarrow> world" where
  "notebook_world rs =
     \<lparr>main_db = (\<lambda>f. if f = ''ncdoc.db''
                       then [''sentences'' \<mapsto> \<lparr>columns = sentences_columns, rows = rs\<rparr>]
                       else Map.empty),
      temp_db = (\<lambda>c. Map.empty),
      db_of = (\<lambda>c. if c = 0 then ''ncdoc.db'' else ''other.db''),
      cur = 0\<rparr>"

text \<open>The three rows of the specification's end-to-end scenario, as rows of the table
  and as the tuples the script reads from them.\<close>

definition scenario_rows :: "sqlval list list" where
  "scenario_rows =
     [[VInt 1, VInt 1, VText ''2009-03-01'', VText ''2005-06-01''],
      [VInt 1, VInt 1, VText ''2010-01-01'', VText ''2009-12-31''],
      [VInt 2, VInt 1, VText ''2001-01-01'', VText ''2003-01-01'']]"

definition scenario_src :: "sentence list" where
  "scenario_src =
     [(VInt 1, VInt 1, VText ''2009-03-01'', VText ''2005-06-01''),
      (VInt 1, VInt 1, VText ''2010-01-01'', VText ''2009-12-31''),
      (VInt 2, VInt 1, VText ''2001-01-01'', VText ''2003-01-01'')]"

text \<open>Rows on the bounds of the windows 2000-01-01 to 2008-12-31 and 2009-01-01 to
  2013-12-31: individual 1 leaves on the last day of the first and comes back on the
  first day of the second; individual 2 leaves one day late and comes back on the last
  day of the second; individual 3 leaves on the first day of the first.\<close>

definition boundary_rows :: "sqlval list list" where
  "boundary_rows =
     [[VInt 1, VInt 1, VText ''2009-01-01'', VText ''2008-12-31''],
      [VInt 2, VInt 1, VText ''2013-12-31'', VText ''2009-01-01''],
      [VInt 3, VInt 1, VText ''2010-01-01'', VText ''2000-01-01'']]"

definition boundary_src :: "sentence list" where
  "boundary_src =
     [(VInt 1, VInt 1, VText ''2009-01-01'', VText ''2008-12-31''),
      (VInt 2, VInt 1, VText ''2013-12-31'', VText ''2009-01-01''),
      (VInt 3, VInt 1, VText ''2010-01-01'', VText ''2000-01-01'')]"




section \<open>Notions used in the statements\<close>

subsection \<open>What the script does to the store\<close>

text \<open>The store after \<^verbatim>\<open>drop table if exists n\<close>; after that statement followed by
  \<^verbatim>\<open>create temp table n\<close>; and after it followed by \<^verbatim>\<open>create table n\<close>. The last pair
  fails exactly when the name is taken in both schemas (\<open>clash\<close>): the drop then removes
  the temporary table only.\<close>

definition dropped :: "string \<Rightarrow> world \<Rightarrow> world" where
  "dropped n w = (if temp_has w n then put_temp n None w else put_main n None w)"

definition recreate_temp :: "string \<Rightarrow> table \<Rightarrow> world \<Rightarrow> world" where
  "recreate_temp n t w = put_temp n (Some t) (dropped n w)"

definition recreate_main :: "string \<Rightarrow> table \<Rightarrow> world \<Rightarrow> world" where
  "recreate_main n t w = put_main n (Some t) (dropped n w)"

definition clash :: "world \<Rightarrow> string \<Rightarrow> bool" where
  "clash w n = (temp_has w n \<and> main_has w n)"

text \<open>The label relation as a function of the source rows, and the store that a
  complete run of the script leaves.\<close>

definition labels_of ::
  "libs \<Rightarrow> string \<Rightarrow> string \<Rightarrow> string \<Rightarrow> sentence list \<Rightarrow> (sqlval \<times> int) list" where
  "labels_of L features_end prediction_start prediction_end src =
     (let prep = sentences_prep L src
      in recidivism_labels
           (recidivism (last_exit (release_dates features_end prep))
              (admit prediction_start prediction_end prep)))"

definition script_world ::
  "libs \<Rightarrow> string \<Rightarrow> string \<Rightarrow> string \<Rightarrow> nat \<Rightarrow> nat \<Rightarrow> nat \<Rightarrow> sentence list \<Rightarrow> world \<Rightarrow> world" where
  "script_world L features_end prediction_start prediction_end x s e src w =
     (let prep = sentences_prep L src;
          rel = release_dates features_end prep;
          lex = last_exit rel;
          adm = admit prediction_start prediction_end prep;
          rcd = recidivism lex adm
      in recreate_main (labels_name s e) (labels_table (recidivism_labels rcd))
          (recreate_temp (recidivism_name s e) (recidivism_table rcd)
            (recreate_temp (admit_name s e) (admit_table adm)
              (recreate_temp (last_exit_name x) (release_table lex)
                (recreate_temp (release_dates_name x) (release_table rel)
                  (recreate_main ''sentences_prep'' (prep_table prep) w))))))"

subsection \<open>Releases and admissions of an individual\<close>

text \<open>
  The tests of the two filters (lines 291 and 303), on the rows of \<^verbatim>\<open>sentences\<close>. They
  are comparisons of texts: a date passes \<open>in_window\<close> when \<^verbatim>\<open>date()\<close> gives a text for
  it that lies between the two bounds in the order of texts, both included, the bounds
  being the arguments as they were passed. This is a window of days only when the
  bounds are written as \<^verbatim>\<open>date()\<close> writes a day; windows of days are defined further
  down (\<open>day_in\<close>). \<open>release_ends\<close> lists the release dates of individual \<open>i\<close> that pass
  the test of the historical window; \<open>released\<close> says there is one; \<open>admitted\<close> says that
  \<open>i\<close> has a sentence record with component number 1 whose begin date passes the test
  of the prediction window.
\<close>

definition in_window :: "string \<Rightarrow> string \<Rightarrow> string option \<Rightarrow> bool" where
  "in_window lo hi d = (case d of None \<Rightarrow> False | Some s \<Rightarrow> lo \<le> s \<and> s \<le> hi)"

definition release_ends :: "libs \<Rightarrow> string \<Rightarrow> sentence list \<Rightarrow> sqlval \<Rightarrow> string list" where
  "release_ends L features_end src i =
     List.map_filter (\<lambda>(j, c, b, e).
        if j = i \<and> in_window ''2000-01-01'' features_end (sql_date L e)
        then sql_date L e else None) src"

definition released :: "libs \<Rightarrow> string \<Rightarrow> sentence list \<Rightarrow> sqlval \<Rightarrow> bool" where
  "released L features_end src i = (release_ends L features_end src i \<noteq> [])"

definition admitted :: "libs \<Rightarrow> string \<Rightarrow> string \<Rightarrow> sentence list \<Rightarrow> sqlval \<Rightarrow> bool" where
  "admitted L prediction_start prediction_end src i =
     (\<exists>(j, c, b, e) \<in> set src.
        j = i \<and> sql_cast_integer L c = Some 1 \<and>
        in_window prediction_start prediction_end (sql_date L b))"

text \<open>A row of the left table finds a partner in the join.\<close>

definition matched :: "(sqlval \<times> int option \<times> string option) list \<Rightarrow> sqlval \<Rightarrow> bool" where
  "matched a i = (i \<noteq> VNull \<and> (\<exists>c b. (i, c, b) \<in> set a))"

subsection \<open>Outcomes and the rest of the store\<close>


definition elsewhere_same :: "world \<Rightarrow> world \<Rightarrow> bool" where
  "elsewhere_same w w' =
     (cur w' = cur w \<and> db_of w' = db_of w \<and>
      (\<forall>c. c \<noteq> cur w \<longrightarrow> temp_db w' c = temp_db w c) \<and>
      (\<forall>f. f \<noteq> db_of w (cur w) \<longrightarrow> main_db w' f = main_db w f))"

section \<open>Days, and arguments in other forms\<close>

subsection \<open>Windows of days\<close>

text \<open>
  The specification speaks of dates and of windows of dates. \<open>date_le\<close> is the order of
  days. \<open>written_day\<close> says of a result of \<^verbatim>\<open>date()\<close> that it is NULL or a day of the
  calendar written \<^verbatim>\<open>YYYY-MM-DD\<close>; \<open>day_in\<close> that it is such a day and lies between two
  days, both included. \<open>readmitted\<close> is the condition of the specification: the
  individual has a sentence record with component number 1 whose begin date lies in the
  window of days.
\<close>

definition date_le :: "date \<Rightarrow> date \<Rightarrow> bool" where
  "date_le a b =
     (case (a, b) of
        ((y, m, d), (y', m', d')) \<Rightarrow> y < y' \<or> y = y' \<and> (m < m' \<or> m = m' \<and> d \<le> d'))"




subsection \<open>A parser that reads more than one form\<close>

text \<open>
  \<^verbatim>\<open>parse(..., fuzzy = True)\<close> reads a day in many forms. This instance reads three of
  them: \<^verbatim>\<open>2008-12-31\<close>, \<^verbatim>\<open>2008-12-31 00:00:00\<close> (a day and a time of day) and
  \<^verbatim>\<open>Dec 31, 2008\<close> (the month by its English short name); on these it answers the day
  that \<^verbatim>\<open>dateutil\<close> answers. \<open>fuzzy_libs\<close> has it as its parser and is \<open>iso_libs\<close>
  otherwise.
\<close>

definition month_number :: "string \<Rightarrow> nat option" where
  "month_number s =
     map_of [(''Jan'', 1), (''Feb'', 2), (''Mar'', 3), (''Apr'', 4), (''May'', 5), (''Jun'', 6),
             (''Jul'', 7), (''Aug'', 8), (''Sep'', 9), (''Oct'', 10), (''Nov'', 11),
             (''Dec'', 12)] s"

definition time_of_day :: "string \<Rightarrow> bool" where
  "time_of_day s =
     (length s = 8 \<and> s ! 2 = CHR '':'' \<and> s ! 5 = CHR '':'' \<and>
      (case (digits_value (take 2 s), digits_value (take 2 (drop 3 s)), digits_value (drop 6 s)) of
         (Some h, Some m, Some t) \<Rightarrow> h < 24 \<and> m < 60 \<and> t < 60
       | _ \<Rightarrow> False))"

definition fuzzy_day :: "string \<Rightarrow> date option" where
  "fuzzy_day s =
     (if length s = 10 then iso_parse s
      else if length s = 19 \<and> s ! 10 = CHR '' '' \<and> time_of_day (drop 11 s)
        then iso_parse (take 10 s)
      else if length s = 12 \<and> s ! 3 = CHR '' '' \<and> s ! 6 = CHR '','' \<and> s ! 7 = CHR '' '' then
        (case (month_number (take 3 s), digits_value (take 2 (drop 4 s)),
               digits_value (drop 8 s)) of
           (Some m, Some d, Some y) \<Rightarrow> if valid_date (y, m, d) then Some (y, m, d) else None
         | _ \<Rightarrow> None)
      else None)"

definition fuzzy_year :: "string \<Rightarrow> nat option" where
  "fuzzy_year s =
     (case fuzzy_day s of
        None \<Rightarrow> None
      | Some (y, m, d) \<Rightarrow> if 1 \<le> y then Some y else None)"

definition fuzzy_libs :: libs where
  "fuzzy_libs = \<lparr>parse_year = fuzzy_year, sql_date = iso_date,
                  sql_cast_integer = plain_cast_integer\<rparr>"

subsection \<open>More stores\<close>



text \<open>Individuals 1 and 2 have their only releases before 2000, on 1999-12-31 and on
  1990-05-05; both come back in the prediction window. Individual 3 is released in 2003.\<close>

definition early_rows :: "sqlval list list" where
  "early_rows =
     [[VInt 1, VInt 1, VText ''2009-03-01'', VText ''1999-12-31''],
      [VInt 2, VInt 1, VText ''2010-01-01'', VText ''1990-05-05''],
      [VInt 3, VInt 1, VText ''2001-01-01'', VText ''2003-01-01'']]"

definition early_src :: "sentence list" where
  "early_src =
     [(VInt 1, VInt 1, VText ''2009-03-01'', VText ''1999-12-31''),
      (VInt 2, VInt 1, VText ''2010-01-01'', VText ''1990-05-05''),
      (VInt 3, VInt 1, VText ''2001-01-01'', VText ''2003-01-01'')]"

subsection \<open>The release filter, with the argument pasted into its text\<close>

text \<open>
  Line 291 is the text
  \<^verbatim>\<open>where sentence_end_date >= '2000-01-01' and sentence_end_date <= '{features_end}';\<close>
  with the argument pasted in unchanged. \<open>create_labels\<close> above covers the calls whose
  arguments have no quote in them, where the pasted text is one string literal. What
  the paste does otherwise is written out here, for the release filter.

  \<open>read_quoted\<close> reads a string literal as SQLite does, from behind its opening quote: a
  doubled quote stands for a quote, a single one ends the literal; it answers the
  literal and the text after it. \<open>pasted_release_where\<close> reads the text that follows
  \<^verbatim>\<open>sentence_end_date <=\<close> when it has one of two shapes, a literal and the end of the
  statement, or a literal, \<^verbatim>\<open>or\<close>, an equation between two literals and the end of the
  statement (\<^verbatim>\<open>and\<close> binds more tightly than \<^verbatim>\<open>or\<close>); other texts are not read
  (\<open>None\<close>).
\<close>

fun read_quoted :: "string \<Rightarrow> (string \<times> string) option" where
  "read_quoted [] = None"
| "read_quoted [c] = (if c = CHR 0x27 then Some ([], []) else None)"
| "read_quoted (c # c' # cs) =
     (if c = CHR 0x27 then
        (if c' = CHR 0x27 then map_option (\<lambda>(l, r). (c # l, r)) (read_quoted cs)
         else Some ([], c' # cs))
      else map_option (\<lambda>(l, r). (c # l, r)) (read_quoted (c' # cs)))"

fun sql_or :: "bool option \<Rightarrow> bool option \<Rightarrow> bool option" where
  "sql_or (Some True) _ = Some True"
| "sql_or _ (Some True) = Some True"
| "sql_or (Some False) (Some False) = Some False"
| "sql_or _ _ = None"

definition pasted_release_where :: "string \<Rightarrow> (string option \<Rightarrow> bool option) option" where
  "pasted_release_where features_end =
     (case read_quoted (features_end @ [CHR 0x27] @ '';'') of
        None \<Rightarrow> None
      | Some (hi, rest) \<Rightarrow>
          if rest = '';''
          then Some (\<lambda>e. sql_and (text_ge e ''2000-01-01'') (text_le e hi))
          else if take 5 rest = '' or '' @ [CHR 0x27] then
            (case read_quoted (drop 5 rest) of
               None \<Rightarrow> None
             | Some (l1, rest1) \<Rightarrow>
                 if take 2 rest1 = ''='' @ [CHR 0x27] then
                   (case read_quoted (drop 2 rest1) of
                      None \<Rightarrow> None
                    | Some (l2, rest2) \<Rightarrow>
                        if rest2 = '';''
                        then Some (\<lambda>e. sql_or (sql_and (text_ge e ''2000-01-01'') (text_le e hi))
                                          (Some (l1 = l2)))
                        else None)
                 else None)
          else None)"

definition release_dates_pasted ::
  "string \<Rightarrow> prep_row list \<Rightarrow> (sqlval \<times> string option) list option" where
  "release_dates_pasted features_end prep =
     map_option
       (\<lambda>cond. map (\<lambda>(i, c, b, e). (i, e)) (filter (\<lambda>(i, c, b, e). where_true (cond e)) prep))
       (pasted_release_where features_end)"

text \<open>The argument \<^verbatim>\<open>2008-12-31' or ''='\<close>.\<close>

definition quoted_bound :: string where
  "quoted_bound = ''2008-12-31'' @ [CHR 0x27] @ '' or '' @ [CHR 0x27, CHR 0x27] @ ''='' @ [CHR 0x27]"

section \<open>The store after the script\<close>

lemma put_temp_sel [simp]:
  "cur (put_temp n t w) = cur w"
  "db_of (put_temp n t w) = db_of w"
  "main_db (put_temp n t w) = main_db w"
  "temp_db (put_temp n t w) = (temp_db w)(cur w := (temp_db w (cur w))(n := t))"
  by (simp_all add: put_temp_def)

lemma put_main_sel [simp]:
  "cur (put_main n t w) = cur w"
  "db_of (put_main n t w) = db_of w"
  "temp_db (put_main n t w) = temp_db w"
  "main_db (put_main n t w) = (main_db w)(db_of w (cur w) := (main_db w (db_of w (cur w)))(n := t))"
  by (simp_all add: put_main_def)

lemma dropped_sel [simp]:
  "cur (dropped n w) = cur w"
  "db_of (dropped n w) = db_of w"
  by (simp_all add: dropped_def)

lemma temp_has_dropped [simp]: "temp_has (dropped n w) m = (m \<noteq> n \<and> temp_has w m)"
  by (auto simp: dropped_def temp_has_def)

lemma main_has_dropped [simp]:
  "main_has (dropped n w) m = (if m = n then clash w n else main_has w m)"
  by (auto simp: dropped_def main_has_def temp_has_def clash_def)

lemma run_drop_create_temp:
  "run_statements (drop_table_if_exists n # create_temp_table n t # fs) w =
   run_statements fs (recreate_temp n t w)"
  by (simp add: drop_table_if_exists_def create_temp_table_def recreate_temp_def
      dropped_def [symmetric])

lemma run_drop_create_main:
  "run_statements (drop_table_if_exists n # create_table n t # fs) w =
   (if clash w n then (dropped n w, Some (TableExists n))
    else run_statements fs (recreate_main n t w))"
  by (simp add: drop_table_if_exists_def create_table_def recreate_main_def
      dropped_def [symmetric])

lemma recreate_temp_sel [simp]:
  "cur (recreate_temp n t w) = cur w"
  "db_of (recreate_temp n t w) = db_of w"
  by (simp_all add: recreate_temp_def)

lemma recreate_main_sel [simp]:
  "cur (recreate_main n t w) = cur w"
  "db_of (recreate_main n t w) = db_of w"
  by (simp_all add: recreate_main_def)

lemma temp_db_recreate_temp:
  "temp_db (recreate_temp n t w) c m =
   (if c = cur w \<and> m = n then Some t else temp_db w c m)"
  by (simp add: recreate_temp_def dropped_def)

lemma main_db_recreate_temp:
  "main_db (recreate_temp n t w) f m =
   (if f = db_of w (cur w) \<and> m = n \<and> \<not> temp_has w n then None else main_db w f m)"
  by (simp add: recreate_temp_def dropped_def)

lemma temp_db_recreate_main:
  "temp_db (recreate_main n t w) c m =
   (if c = cur w \<and> m = n then None else temp_db w c m)"
  by (auto simp add: recreate_main_def dropped_def temp_has_def)

lemma main_db_recreate_main:
  "main_db (recreate_main n t w) f m =
   (if f = db_of w (cur w) \<and> m = n then Some t else main_db w f m)"
  by (simp add: recreate_main_def dropped_def)

lemma world_eqI:
  "cur w = cur w' \<Longrightarrow> db_of w = db_of w' \<Longrightarrow> (\<And>c m. temp_db w c m = temp_db w' c m) \<Longrightarrow>
   (\<And>f m. main_db w f m = main_db w' f m) \<Longrightarrow> w = (w' :: world)"
  by (rule world.equality) (auto simp: fun_eq_iff)

declare str_nat.simps [simp del]

lemma str_nat_digits: "str_nat n \<noteq> [] \<and> set (str_nat n) \<subseteq> digit_char ` {..<10}"
proof (induction n rule: str_nat.induct)
  case (1 n)
  show ?case
  proof (cases "n < 10")
    case True
    then show ?thesis by (subst (1 2) str_nat.simps) simp
  next
    case False
    have "n mod 10 < 10" by simp
    with False 1 show ?thesis by (subst (1 2) str_nat.simps) auto
  qed
qed

lemma digit_char_not_l: "digit_char d \<noteq> CHR ''l''"
proof -
  have "d mod 10 < length ''0123456789''" by simp
  then have "digit_char d \<in> set ''0123456789''"
    unfolding digit_char_def by (rule nth_mem)
  then show ?thesis by auto
qed

lemma str_nat_not_labels: "str_nat n @ u \<noteq> ''labels_'' @ v"
proof
  assume h: "str_nat n @ u = ''labels_'' @ v"
  obtain c cs where c: "str_nat n = c # cs"
    using str_nat_digits [of n] by (cases "str_nat n") auto
  then have "c \<in> digit_char ` {..<10}" using str_nat_digits [of n] by auto
  moreover from h c have "c = CHR ''l''" by simp
  ultimately show False by (auto simp: digit_char_not_l [symmetric])
qed

lemma names_distinct [simp]:
  "labels_name s e \<noteq> ''sentences_prep''"
  "labels_name s e \<noteq> ''sentences''"
  "labels_name s e \<noteq> release_dates_name x"
  "labels_name s e \<noteq> last_exit_name x"
  "labels_name s e \<noteq> admit_name s' e'"
  "labels_name s e \<noteq> recidivism_name s' e'"
  "recidivism_name s e \<noteq> ''sentences_prep''"
  "recidivism_name s e \<noteq> ''sentences''"
  "recidivism_name s e \<noteq> release_dates_name x"
  "recidivism_name s e \<noteq> last_exit_name x"
  "recidivism_name s e \<noteq> admit_name s' e'"
  "admit_name s e \<noteq> ''sentences_prep''"
  "admit_name s e \<noteq> ''sentences''"
  "admit_name s e \<noteq> release_dates_name x"
  "admit_name s e \<noteq> last_exit_name x"
  "last_exit_name x \<noteq> ''sentences_prep''"
  "last_exit_name x \<noteq> ''sentences''"
  "last_exit_name x \<noteq> release_dates_name x'"
  "release_dates_name x \<noteq> ''sentences_prep''"
  "release_dates_name x \<noteq> ''sentences''"
  using str_nat_not_labels [of s' "''_'' @ str_nat e'" "str_nat s @ ''_'' @ str_nat e"]
  by (simp_all add: labels_name_def recidivism_name_def admit_name_def last_exit_name_def
      release_dates_name_def eq_commute)

lemma temp_has_recreate_temp [simp]:
  "temp_has (recreate_temp n t w) m = (m = n \<or> temp_has w m)"
  by (simp add: temp_has_def temp_db_recreate_temp)

lemma main_has_recreate_temp [simp]:
  "m \<noteq> n \<Longrightarrow> main_has (recreate_temp n t w) m = main_has w m"
  by (simp add: main_has_def main_db_recreate_temp)

lemma temp_has_recreate_main [simp]:
  "temp_has (recreate_main n t w) m = (m \<noteq> n \<and> temp_has w m)"
  by (simp add: temp_has_def temp_db_recreate_main)

lemma main_has_recreate_main [simp]:
  "main_has (recreate_main n t w) m = (m = n \<or> main_has w m)"
  by (simp add: main_has_def main_db_recreate_main)

lemma clash_recreate [simp]:
  "m \<noteq> n \<Longrightarrow> clash (recreate_temp n t w) m = clash w m"
  "m \<noteq> n \<Longrightarrow> clash (recreate_main n t w) m = clash w m"
  by (simp_all add: clash_def)

lemma resolve_recreate_temp:
  "resolve (recreate_temp n t w) c m =
   (if c = cur w \<and> m = n then Some t
    else if db_of w c = db_of w (cur w) \<and> m = n \<and> \<not> temp_has w n then temp_db w c m
    else resolve w c m)"
  by (simp add: resolve_def temp_db_recreate_temp main_db_recreate_temp split: option.splits)

lemma resolve_recreate_main:
  "resolve (recreate_main n t w) c m =
   (if m = n then
      (if c = cur w then Some t
       else case temp_db w c n of Some u \<Rightarrow> Some u
            | None \<Rightarrow> if db_of w c = db_of w (cur w) then Some t else main_db w (db_of w c) n)
    else resolve w c m)"
  by (simp add: resolve_def temp_db_recreate_main main_db_recreate_main split: option.splits)

lemma resolve_dropped:
  "m \<noteq> n \<Longrightarrow> resolve (dropped n w) c m = resolve w c m"
  by (auto simp: resolve_def dropped_def split: option.splits)

lemma from_sentences_cong:
  "cur w' = cur w \<Longrightarrow> resolve w' (cur w) ''sentences'' = resolve w (cur w) ''sentences'' \<Longrightarrow>
   from_sentences w' = from_sentences w"
  by (simp add: from_sentences_def)

lemma from_sentences_dropped [simp]:
  "n \<noteq> ''sentences'' \<Longrightarrow> from_sentences (dropped n w) = from_sentences w"
  by (rule from_sentences_cong) (simp_all add: resolve_dropped)

lemma from_sentences_recreate [simp]:
  "n \<noteq> ''sentences'' \<Longrightarrow> from_sentences (recreate_temp n t w) = from_sentences w"
  "n \<noteq> ''sentences'' \<Longrightarrow> from_sentences (recreate_main n t w) = from_sentences w"
  by (rule from_sentences_cong; simp add: resolve_recreate_temp resolve_recreate_main)+

lemma executescript_eq:
  "executescript L fe ps pe x s e w =
     (if clash w ''sentences_prep''
      then (dropped ''sentences_prep'' w, Some (TableExists ''sentences_prep''))
      else case from_sentences w of
        Inl err \<Rightarrow> (dropped ''sentences_prep'' w, Some err)
      | Inr src \<Rightarrow>
          if clash w (labels_name s e)
          then (dropped (labels_name s e)
                 (recreate_temp (recidivism_name s e)
                    (recidivism_table (recidivism (last_exit (release_dates fe (sentences_prep L src)))
                        (admit ps pe (sentences_prep L src))))
                 (recreate_temp (admit_name s e) (admit_table (admit ps pe (sentences_prep L src)))
                 (recreate_temp (last_exit_name x)
                    (release_table (last_exit (release_dates fe (sentences_prep L src))))
                 (recreate_temp (release_dates_name x)
                    (release_table (release_dates fe (sentences_prep L src)))
                 (recreate_main ''sentences_prep'' (prep_table (sentences_prep L src)) w))))),
                Some (TableExists (labels_name s e)))
          else (script_world L fe ps pe x s e src w, None))"
  apply (simp add: executescript_def drop_table_if_exists_def create_sentences_prep_def
      dropped_def [symmetric] recreate_main_def [symmetric] Let_def
      run_drop_create_temp run_drop_create_main script_world_def
      del: run_statements.simps split: sum.splits)
  apply simp
  done

lemma resolve_script_world_labels:
  "resolve (script_world L fe ps pe x s e src w) (cur w) (labels_name s e) =
   Some (labels_table (labels_of L fe ps pe src))"
  by (simp add: script_world_def Let_def resolve_recreate_main labels_of_def)

lemma create_labels_eq:
  assumes "parse_year L fe = Some x" "parse_year L ps = Some s" "parse_year L pe = Some e"
    and "literal_ok fe" "literal_ok ps" "literal_ok pe"
    and "from_sentences w = Inr src"
    and "\<not> clash w ''sentences_prep''" "\<not> clash w (labels_name s e)"
  shows "create_labels L w fe ps pe conn =
         (script_world L fe ps pe x s e src w,
          read_sql (labels_name s e) conn (script_world L fe ps pe x s e src w))"
  using assms by (simp add: create_labels_def executescript_eq)

lemma create_labels_InrD:
  assumes "create_labels L w fe ps pe conn = (w', Inr df)"
  shows "\<exists>x s e src.
           parse_year L fe = Some x \<and> parse_year L ps = Some s \<and> parse_year L pe = Some e \<and>
           literal_ok fe \<and> literal_ok ps \<and> literal_ok pe \<and>
           from_sentences w = Inr src \<and>
           \<not> clash w ''sentences_prep'' \<and> \<not> clash w (labels_name s e) \<and>
           w' = script_world L fe ps pe x s e src w \<and>
           read_sql (labels_name s e) conn w' = Inr df"
  using assms
  by (auto simp: create_labels_def executescript_eq split: option.splits if_splits sum.splits)

lemma read_sql_cur:
  "read_sql (labels_name s e) (cur w) (script_world L fe ps pe x s e src w) =
   Inr (labels_table (labels_of L fe ps pe src))"
  by (simp add: read_sql_def resolve_script_world_labels)

section \<open>What the queries compute\<close>

lemma sql_and_Some [simp]: "sql_and (Some p) (Some q) = Some (p \<and> q)"
  by (cases p; cases q) simp_all

lemma sql_and_None [simp]:
  "sql_and None (Some q) = (if q then None else Some False)"
  "sql_and (Some p) None = (if p then None else Some False)"
  by (cases q; simp) (cases p; simp)

lemma in_window_None [simp]: "\<not> in_window lo hi None"
  by (simp add: in_window_def)

lemma in_window_Some [simp]: "in_window lo hi (Some s) = (lo \<le> s \<and> s \<le> hi)"
  by (simp add: in_window_def)

lemma in_window_SomeD: "in_window lo hi d \<Longrightarrow> \<exists>s. d = Some s"
  by (cases d) simp_all

lemma where_between [simp]:
  "where_true (sql_and (text_ge d lo) (text_le d hi)) = in_window lo hi d"
  by (cases d) (auto simp: where_true_def text_ge_def text_le_def)

lemma where_admit [simp]:
  "where_true (sql_and (sql_and (text_ge d lo) (text_le d hi)) (int_eq c 1)) =
   (in_window lo hi d \<and> c = Some 1)"
  by (cases d; cases c) (auto simp: where_true_def text_ge_def text_le_def int_eq_def)

lemma where_eq: "where_true (sql_eq a b) = (a \<noteq> VNull \<and> a = b)"
  by (auto simp: where_true_def sql_eq_def)

lemma group_of_release:
  "map snd (filter (\<lambda>r. fst r = i) (release_dates fe (sentences_prep L src))) =
   map Some (release_ends L fe src i)"
proof (induction src)
  case Nil
  then show ?case
    by (simp add: release_dates_def sentences_prep_def release_ends_def List.map_filter_simps)
next
  case (Cons r src)
  obtain j c b e where r: "r = (j, c, b, e)" by (cases r)
  show ?case
  proof (cases "in_window ''2000-01-01'' fe (sql_date L e)")
    case True
    then obtain s where "sql_date L e = Some s" by (auto dest: in_window_SomeD)
    with True Cons r show ?thesis
      by (simp add: release_dates_def sentences_prep_def release_ends_def
          List.map_filter_simps)
  next
    case False
    with Cons r show ?thesis
      by (simp add: release_dates_def sentences_prep_def release_ends_def
          List.map_filter_simps)
  qed
qed

lemma keys_of_release:
  "i \<in> fst ` set (release_dates fe (sentences_prep L src)) \<longleftrightarrow> released L fe src i"
proof -
  have "i \<in> fst ` set rel \<longleftrightarrow> map snd (filter (\<lambda>r. fst r = i) rel) \<noteq> []"
    for rel :: "(sqlval \<times> string option) list"
    by (induction rel) auto
  then have "i \<in> fst ` set (release_dates fe (sentences_prep L src)) \<longleftrightarrow>
             map Some (release_ends L fe src i) \<noteq> []"
    unfolding group_of_release [symmetric] .
  then show ?thesis by (simp add: released_def)
qed




lemma keys_of_last_exit: "fst ` set (last_exit rel) = fst ` set rel"
  by (force simp: last_exit_def)

lemma set_admit:
  "(i, c, b) \<in> set (admit ps pe (sentences_prep L src)) \<longleftrightarrow>
   c = Some 1 \<and> in_window ps pe b \<and>
   (\<exists>c' b' e'. (i, c', b', e') \<in> set src \<and> sql_cast_integer L c' = c \<and> sql_date L b' = b)"
  by (force simp: admit_def sentences_prep_def)

lemma admit_matches:
  "(\<exists>c b. (i, c, b) \<in> set (admit ps pe (sentences_prep L src))) \<longleftrightarrow> admitted L ps pe src i"
  by (fastforce simp: set_admit admitted_def)

lemma admit_not_null:
  "(i, c, b) \<in> set (admit ps pe prep) \<Longrightarrow> b \<noteq> None"
  by (auto simp: admit_def dest: in_window_SomeD)

lemma join_empty:
  "filter (\<lambda>(j, c, b). where_true (sql_eq i j)) a = [] \<longleftrightarrow> \<not> matched a i"
  by (auto simp: filter_empty_conv matched_def where_eq)

lemma recidivism_Cons:
  "recidivism ((i, e) # r) a =
     (if matched a i
      then map (\<lambda>(j, c, b). (i, e, b, case_when_null b))
             (filter (\<lambda>(j, c, b). where_true (sql_eq i j)) a)
      else [(i, e, None, case_when_null None)]) @ recidivism r a"
  by (simp add: recidivism_def Let_def join_empty)

lemma set_recidivism:
  "(i, e, b, l) \<in> set (recidivism r a) \<longleftrightarrow>
   (i, e) \<in> set r \<and> l = case_when_null b \<and>
   (if matched a i then \<exists>c. (i, c, b) \<in> set a else b = None)"
proof (induction r)
  case Nil
  then show ?case by (simp add: recidivism_def)
next
  case (Cons p r)
  obtain i' e' where p: "p = (i', e')" by (cases p)
  have "(i, e, b, l) \<in> set (if matched a i'
      then map (\<lambda>(j, c, b). (i', e', b, case_when_null b))
             (filter (\<lambda>(j, c, b). where_true (sql_eq i' j)) a)
      else [(i', e', None, case_when_null None)]) \<longleftrightarrow>
     i = i' \<and> e = e' \<and> l = case_when_null b \<and>
     (if matched a i then \<exists>c. (i, c, b) \<in> set a else b = None)"
    by (auto simp: matched_def image_iff where_eq)
  with Cons p show ?case by (auto simp: recidivism_Cons)
qed

lemma set_labels:
  assumes "\<And>j c b. (j, c, b) \<in> set a \<Longrightarrow> b \<noteq> None"
  shows "(i, l) \<in> set (recidivism_labels (recidivism r a)) \<longleftrightarrow>
         i \<in> fst ` set r \<and> l = (if matched a i then 1 else 0)"
proof -
  have "(i, l) \<in> set (recidivism_labels (recidivism r a)) \<longleftrightarrow>
        (\<exists>e b. (i, e, b, l) \<in> set (recidivism r a))"
    by (force simp: recidivism_labels_def)
  also have "\<dots> \<longleftrightarrow> i \<in> fst ` set r \<and> l = (if matched a i then 1 else 0)"
  proof (cases "matched a i")
    case True
    then obtain c b where cb: "(i, c, b) \<in> set a" by (auto simp: matched_def)
    have one: "case_when_null b' = 1" if "(i, c', b') \<in> set a" for c' b'
      using assms [OF that] by (simp add: case_when_null_def)
    have "(\<exists>e b. (i, e, b, l) \<in> set (recidivism r a)) \<longleftrightarrow>
          (\<exists>e. (i, e) \<in> set r) \<and> (\<exists>b c. l = case_when_null b \<and> (i, c, b) \<in> set a)"
      using True by (auto simp: set_recidivism)
    also have "(\<exists>b c. l = case_when_null b \<and> (i, c, b) \<in> set a) \<longleftrightarrow> l = 1"
      using cb one by metis
    also have "(\<exists>e. (i, e) \<in> set r) \<longleftrightarrow> i \<in> fst ` set r"
      by force
    finally show ?thesis using True by simp
  next
    case False
    have "(\<exists>e b. (i, e, b, l) \<in> set (recidivism r a)) \<longleftrightarrow>
          (\<exists>e. (i, e) \<in> set r) \<and> l = 0"
      using False by (auto simp: set_recidivism case_when_null_def)
    also have "(\<exists>e. (i, e) \<in> set r) \<longleftrightarrow> i \<in> fst ` set r"
      by force
    finally show ?thesis using False by simp
  qed
  finally show ?thesis .
qed

section \<open>The label relation\<close>

lemma iso_parse_lits:
  "iso_parse ''2008-12-31'' = Some (2008, 12, 31)"
  "iso_parse ''2009-01-01'' = Some (2009, 1, 1)"
  "iso_parse ''2013-12-31'' = Some (2013, 12, 31)"
  "iso_parse ''2009-03-01'' = Some (2009, 3, 1)"
  "iso_parse ''2005-06-01'' = Some (2005, 6, 1)"
  "iso_parse ''2010-01-01'' = Some (2010, 1, 1)"
  "iso_parse ''2009-12-31'' = Some (2009, 12, 31)"
  "iso_parse ''2001-01-01'' = Some (2001, 1, 1)"
  "iso_parse ''2003-01-01'' = Some (2003, 1, 1)"
  "iso_parse ''2014-01-01'' = Some (2014, 1, 1)"
  "iso_parse ''2018-12-31'' = Some (2018, 12, 31)"
  "iso_parse ''2000-01-01'' = Some (2000, 1, 1)"
  by (simp_all add: iso_parse_def digits_value_def digit_value_def valid_date_def
      days_in_month_def)

lemma iso_parse_no_date:
  "iso_parse ''not a date'' = None" "iso_parse ''June 2005'' = None" "iso_parse ''no date'' = None"
  by (simp_all add: iso_parse_def)

lemma iso_date_lits:
  "iso_date (VText ''2009-03-01'') = Some ''2009-03-01''"
  "iso_date (VText ''2005-06-01'') = Some ''2005-06-01''"
  "iso_date (VText ''2010-01-01'') = Some ''2010-01-01''"
  "iso_date (VText ''2009-12-31'') = Some ''2009-12-31''"
  "iso_date (VText ''2001-01-01'') = Some ''2001-01-01''"
  "iso_date (VText ''2003-01-01'') = Some ''2003-01-01''"
  "iso_date (VText ''2008-12-31'') = Some ''2008-12-31''"
  "iso_date (VText ''2009-01-01'') = Some ''2009-01-01''"
  "iso_date (VText ''2013-12-31'') = Some ''2013-12-31''"
  "iso_date (VText ''2000-01-01'') = Some ''2000-01-01''"
  "iso_date (VText ''not a date'') = None"
  "iso_date (VText ''June 2005'') = None"
  by (simp_all add: iso_date_def iso_parse_lits iso_parse_no_date iso_text_def pad4_def
      pad2_def digit_char_def)

lemma iso_year_lits:
  "iso_year ''2008-12-31'' = Some 2008"
  "iso_year ''2009-01-01'' = Some 2009"
  "iso_year ''2013-12-31'' = Some 2013"
  "iso_year ''2014-01-01'' = Some 2014"
  "iso_year ''2018-12-31'' = Some 2018"
  "iso_year ''no date'' = None"
  by (simp_all add: iso_year_def iso_parse_lits iso_parse_no_date)

lemma literal_ok_lits:
  "literal_ok ''2008-12-31''" "literal_ok ''2009-01-01''" "literal_ok ''2013-12-31''"
  "literal_ok ''2014-01-01''" "literal_ok ''2018-12-31''"
  by (simp_all add: literal_ok_def)

lemma year_names:
  "str_nat 2008 = ''2008''" "str_nat 2009 = ''2009''" "str_nat 2013 = ''2013''"
  by (simp_all add: str_nat.simps digit_char_def)

lemma set_labels_of:
  "(i, l) \<in> set (labels_of L fe ps pe src) \<longleftrightarrow>
   released L fe src i \<and> l = (if i \<noteq> VNull \<and> admitted L ps pe src i then 1 else 0)"
proof -
  have "matched (admit ps pe (sentences_prep L src)) i \<longleftrightarrow>
        i \<noteq> VNull \<and> admitted L ps pe src i"
    by (simp add: matched_def admit_matches)
  then show ?thesis
    by (simp add: labels_of_def Let_def set_labels [OF admit_not_null] keys_of_last_exit
        keys_of_release)
qed



lemma rows_labels_table:
  "rows (labels_table ls) = map (\<lambda>(i, l). [i, VInt l]) ls"
  "columns (labels_table ls) = [''inmate_doc_number'', ''recidivism'']"
  by (simp_all add: labels_table_def)



lemma create_labels_cur:
  assumes "create_labels L w fe ps pe (cur w) = (w', Inr df)" and "from_sentences w = Inr src"
  shows "df = labels_table (labels_of L fe ps pe src)"
  using create_labels_InrD [OF assms(1)] assms(2) by (auto simp: read_sql_cur)

section \<open>The order of dates in text form\<close>

lemma ten_cases:
  "k < 10 \<Longrightarrow> k = 0 \<or> k = 1 \<or> k = 2 \<or> k = 3 \<or> k = 4 \<or> k = 5 \<or> k = 6 \<or> k = 7 \<or> k = 8 \<or> k = (9::nat)"
  by arith

lemma of_char_digit_char_aux: "k < 10 \<Longrightarrow> of_char (''0123456789'' ! k) = (48 + k :: nat)"
  by (drule ten_cases) (elim disjE; simp)

lemma of_char_digit_char: "of_char (digit_char n) = (48 + n mod 10 :: nat)"
  by (simp add: digit_char_def of_char_digit_char_aux)

lemma digit_char_less [simp]: "digit_char a < digit_char b \<longleftrightarrow> a mod 10 < b mod 10"
  by (simp add: less_char_def of_char_digit_char)

lemma digit_char_eq [simp]: "digit_char a = digit_char b \<longleftrightarrow> a mod 10 = b mod 10"
proof
  assume "digit_char a = digit_char b"
  then have "(of_char (digit_char a) :: nat) = of_char (digit_char b)" by simp
  then show "a mod 10 = b mod 10" by (simp add: of_char_digit_char)
next
  assume "a mod 10 = b mod 10"
  then show "digit_char a = digit_char b" by (simp add: digit_char_def)
qed


lemma two_digits_less:
  "(a div 10 < b div 10 \<or> a div 10 = b div 10 \<and> a mod 10 < b mod 10) \<longleftrightarrow> a < (b::nat)"
proof -
  define A r B t where "A = a div 10" and "r = a mod 10" and "B = b div 10" and "t = b mod 10"
  have "a = 10 * A + r" "b = 10 * B + t" "r < 10" "t < 10"
    by (simp_all add: A_def r_def B_def t_def)
  then have "(A < B \<or> A = B \<and> r < t) \<longleftrightarrow> a < b" by auto
  then show ?thesis by (simp only: A_def r_def B_def t_def)
qed

lemma two_digits_eq:
  "(a div 10 = b div 10 \<and> a mod 10 = b mod 10) \<longleftrightarrow> a = (b::nat)"
  by (metis div_mult_mod_eq)


lemma pad2_less_iff: "a < 100 \<Longrightarrow> b < 100 \<Longrightarrow> pad2 a < pad2 b \<longleftrightarrow> a < b"
proof -
  assume "a < 100" "b < 100"
  then have "a div 10 < 10" "b div 10 < 10" by simp_all
  then show ?thesis by (simp add: pad2_def two_digits_less)
qed

lemma pad2_eq_iff: "a < 100 \<Longrightarrow> b < 100 \<Longrightarrow> pad2 a = pad2 b \<longleftrightarrow> a = b"
proof -
  assume "a < 100" "b < 100"
  then have "a div 10 < 10" "b div 10 < 10" by simp_all
  then show ?thesis by (simp add: pad2_def two_digits_eq)
qed

lemma pad4_split: "pad4 n = pad2 (n div 100) @ pad2 (n mod 100)"
proof -
  have a: "n div 100 div 10 = n div 1000" by (simp add: div_mult2_eq [symmetric])
  have "n mod 100 = n mod (10 * 10)" by simp
  also have "\<dots> = 10 * (n div 10 mod 10) + n mod 10" by (rule mod_mult2_eq)
  finally have m: "n mod 100 = 10 * (n div 10 mod 10) + n mod 10" .
  have b: "n mod 100 div 10 = n div 10 mod 10" by (simp add: m)
  have c: "n mod 100 mod 10 = n mod 10" by (simp add: m)
  show ?thesis by (simp add: pad4_def pad2_def a b c)
qed


lemma append_less_same_length:
  fixes xs ys :: "'a::linorder list"
  shows "length xs = length ys \<Longrightarrow> xs @ u < ys @ v \<longleftrightarrow> xs < ys \<or> xs = ys \<and> u < v"
  by (induction xs ys rule: list_induct2) auto

lemma hundreds_less:
  "(a div 100 < b div 100 \<or> a div 100 = b div 100 \<and> a mod 100 < b mod 100) \<longleftrightarrow> a < (b::nat)"
proof -
  define A r B t where "A = a div 100" and "r = a mod 100" and "B = b div 100"
    and "t = b mod 100"
  have "a = 100 * A + r" "b = 100 * B + t" "r < 100" "t < 100"
    by (simp_all add: A_def r_def B_def t_def)
  then have "(A < B \<or> A = B \<and> r < t) \<longleftrightarrow> a < b" by auto
  then show ?thesis by (simp only: A_def r_def B_def t_def)
qed

lemma hundreds_eq:
  "(a div 100 = b div 100 \<and> a mod 100 = b mod 100) \<longleftrightarrow> a = (b::nat)"
  by (metis div_mult_mod_eq)

lemma length_pad2 [simp]: "length (pad2 n) = 2"
  by (simp add: pad2_def)

lemma pad4_less_iff: "a \<le> 9999 \<Longrightarrow> b \<le> 9999 \<Longrightarrow> pad4 a < pad4 b \<longleftrightarrow> a < b"
proof -
  assume "a \<le> 9999" "b \<le> 9999"
  then have "a div 100 < 100" "b div 100 < 100" by simp_all
  then show ?thesis
    by (simp add: pad4_split append_less_same_length pad2_less_iff pad2_eq_iff hundreds_less)
qed

lemma pad4_eq_iff: "a \<le> 9999 \<Longrightarrow> b \<le> 9999 \<Longrightarrow> pad4 a = pad4 b \<longleftrightarrow> a = b"
proof -
  assume "a \<le> 9999" "b \<le> 9999"
  then have "a div 100 < 100" "b div 100 < 100" by simp_all
  then show ?thesis
    by (simp add: pad4_split pad2_eq_iff hundreds_eq)
qed

lemma length_pad4 [simp]: "length (pad4 n) = 4"
  by (simp add: pad4_def)

lemma iso_text_less_iff:
  assumes "y \<le> 9999" "y' \<le> 9999" "m < 100" "m' < 100" "d < 100" "d' < 100"
  shows "iso_text (y, m, d) < iso_text (y', m', d') \<longleftrightarrow>
         y < y' \<or> y = y' \<and> (m < m' \<or> m = m' \<and> d < d')"
proof -
  have "iso_text (y, m, d) < iso_text (y', m', d') \<longleftrightarrow>
        pad4 y < pad4 y' \<or> pad4 y = pad4 y' \<and>
          (pad2 m < pad2 m' \<or> pad2 m = pad2 m' \<and> pad2 d < pad2 d')"
    by (simp add: iso_text_def append_less_same_length)
  with assms show ?thesis
    by (simp add: pad4_less_iff pad4_eq_iff pad2_less_iff pad2_eq_iff)
qed

lemma days_in_month_le: "days_in_month y m \<le> 31"
  by (simp add: days_in_month_def)

lemma iso_next_day_greater:
  assumes "valid_date dt" and "dt \<noteq> (9999, 12, 31)"
  shows "iso_text dt < iso_text (next_day dt)"
proof -
  obtain y m d where dt: "dt = (y, m, d)" by (cases dt)
  from assms(1) dt have v: "y \<le> 9999" "1 \<le> m" "m \<le> 12" "1 \<le> d" "d \<le> days_in_month y m"
    by (simp_all add: valid_date_def)
  have d31: "d \<le> 31" using v(5) days_in_month_le [of y m] by simp
  show ?thesis
  proof (cases "d < days_in_month y m")
    case True
    then have "d + 1 \<le> 31" using days_in_month_le [of y m] by simp
    with True v d31 show ?thesis
      by (simp add: dt next_day_def iso_text_less_iff)
  next
    case False
    note last = this
    show ?thesis
    proof (cases "m < 12")
      case True
      with last v d31 show ?thesis
        by (simp add: dt next_day_def iso_text_less_iff)
    next
      case False
      with v have m: "m = 12" by simp
      with last v have "d = 31" by (simp add: days_in_month_def)
      with assms(2) dt m have "y \<noteq> 9999" by simp
      with v have "y + 1 \<le> 9999" by simp
      with last m v d31 show ?thesis
        by (simp add: dt next_day_def iso_text_less_iff)
    qed
  qed
qed

lemma iso_2000: "iso_text (2000, 1, 1) = ''2000-01-01''"
  by (simp add: iso_text_def pad4_def pad2_def digit_char_def)

lemma iso_before_2000:
  assumes "valid_date dt" and "fst dt < 2000"
  shows "iso_text dt < ''2000-01-01''"
proof -
  obtain y m d where dt: "dt = (y, m, d)" by (cases dt)
  from assms(1) dt have v: "y \<le> 9999" "m \<le> 12" "d \<le> days_in_month y m"
    by (simp_all add: valid_date_def)
  have "d \<le> 31" using v(3) days_in_month_le [of y m] by simp
  with v assms(2) dt have "iso_text (y, m, d) < iso_text (2000, 1, 1)"
    by (simp add: iso_text_less_iff)
  then show ?thesis by (simp only: dt iso_2000)
qed

section \<open>The store after a complete run\<close>

lemmas names_distinct_sym [simp] = names_distinct [symmetric]

lemma script_world_sel [simp]:
  "cur (script_world L fe ps pe x s e src w) = cur w"
  "db_of (script_world L fe ps pe x s e src w) = db_of w"
  by (simp_all add: script_world_def Let_def)

lemma temp_db_script_world:
  "temp_db (script_world L fe ps pe x s e src w) c n =
     (if c \<noteq> cur w then temp_db w c n
      else if n = labels_name s e then None
      else if n = recidivism_name s e then
        Some (recidivism_table (recidivism (last_exit (release_dates fe (sentences_prep L src)))
                (admit ps pe (sentences_prep L src))))
      else if n = admit_name s e then Some (admit_table (admit ps pe (sentences_prep L src)))
      else if n = last_exit_name x then
        Some (release_table (last_exit (release_dates fe (sentences_prep L src))))
      else if n = release_dates_name x then
        Some (release_table (release_dates fe (sentences_prep L src)))
      else if n = ''sentences_prep'' then None
      else temp_db w c n)"
  by (simp add: script_world_def Let_def temp_db_recreate_main temp_db_recreate_temp)

lemma main_db_script_world:
  "main_db (script_world L fe ps pe x s e src w) f n =
     (if f \<noteq> db_of w (cur w) then main_db w f n
      else if n = labels_name s e then Some (labels_table (labels_of L fe ps pe src))
      else if n = ''sentences_prep'' then Some (prep_table (sentences_prep L src))
      else if (n = recidivism_name s e \<or> n = admit_name s e \<or> n = last_exit_name x \<or>
               n = release_dates_name x) \<and> \<not> temp_has w n then None
      else main_db w f n)"
  by (simp add: script_world_def Let_def main_db_recreate_main main_db_recreate_temp
      labels_of_def) blast


lemma resolve_sentences_script_world:
  "resolve (script_world L fe ps pe x s e src w) (cur w) ''sentences'' =
   resolve w (cur w) ''sentences''"
  by (simp add: resolve_def temp_db_script_world main_db_script_world split: option.splits)

lemma from_sentences_script_world [simp]:
  "from_sentences (script_world L fe ps pe x s e src w) = from_sentences w"
  by (rule from_sentences_cong) (simp_all add: resolve_sentences_script_world)

lemma temp_has_script_world:
  "temp_has (script_world L fe ps pe x s e src w) n =
     (n \<noteq> labels_name s e \<and>
      (n = recidivism_name s e \<or> n = admit_name s e \<or> n = last_exit_name x \<or>
       n = release_dates_name x \<or> (n \<noteq> ''sentences_prep'' \<and> temp_has w n)))"
  by (simp add: temp_has_def temp_db_script_world)

lemma clash_script_world [simp]:
  "\<not> clash (script_world L fe ps pe x s e src w) ''sentences_prep''"
  "\<not> clash (script_world L fe ps pe x s e src w) (labels_name s e)"
  by (simp_all add: clash_def temp_has_script_world)

lemma put_same [simp]:
  "temp_db w (cur w) n = t \<Longrightarrow> put_temp n t w = w"
  "main_db w (db_of w (cur w)) n = t \<Longrightarrow> put_main n t w = w"
  by (auto simp: put_temp_def put_main_def)

lemma recreate_temp_same:
  "temp_db w (cur w) n = Some t \<Longrightarrow> recreate_temp n t w = w"
  by (rule world_eqI) (auto simp: temp_db_recreate_temp main_db_recreate_temp temp_has_def)

lemma recreate_main_same:
  "temp_db w (cur w) n = None \<Longrightarrow> main_db w (db_of w (cur w)) n = Some t \<Longrightarrow>
   recreate_main n t w = w"
  by (rule world_eqI) (auto simp: temp_db_recreate_main main_db_recreate_main)

lemma script_world_idem:
  "script_world L fe ps pe x s e src (script_world L fe ps pe x s e src w) =
   script_world L fe ps pe x s e src w"
  (is "script_world L fe ps pe x s e src ?W = ?W")
proof -
  have 1: "recreate_main ''sentences_prep'' (prep_table (sentences_prep L src)) ?W = ?W"
    by (rule recreate_main_same) (simp_all add: temp_db_script_world main_db_script_world)
  have 2: "recreate_temp (release_dates_name x)
             (release_table (release_dates fe (sentences_prep L src))) ?W = ?W"
    by (rule recreate_temp_same) (simp add: temp_db_script_world)
  have 3: "recreate_temp (last_exit_name x)
             (release_table (last_exit (release_dates fe (sentences_prep L src)))) ?W = ?W"
    by (rule recreate_temp_same) (simp add: temp_db_script_world)
  have 4: "recreate_temp (admit_name s e) (admit_table (admit ps pe (sentences_prep L src))) ?W
           = ?W"
    by (rule recreate_temp_same) (simp add: temp_db_script_world)
  have 5: "recreate_temp (recidivism_name s e)
             (recidivism_table (recidivism (last_exit (release_dates fe (sentences_prep L src)))
                (admit ps pe (sentences_prep L src)))) ?W = ?W"
    by (rule recreate_temp_same) (simp add: temp_db_script_world)
  have 6: "recreate_main (labels_name s e) (labels_table (labels_of L fe ps pe src)) ?W = ?W"
    by (rule recreate_main_same) (simp_all add: temp_db_script_world main_db_script_world)
  show ?thesis
    apply (subst script_world_def)
    apply (simp only: Let_def 1 2 3 4 5)
    apply (simp only: 6 [unfolded labels_of_def Let_def])
    done
qed

text \<open>Read by name through the cursor, each table of the script is the relation that
  the script has put under that name.\<close>

lemma script_tables_by_name:
  "resolve (script_world L fe ps pe x s e src w) (cur w) ''sentences_prep'' =
     Some (prep_table (sentences_prep L src))"
  "resolve (script_world L fe ps pe x s e src w) (cur w) (release_dates_name x) =
     Some (release_table (release_dates fe (sentences_prep L src)))"
  "resolve (script_world L fe ps pe x s e src w) (cur w) (last_exit_name x) =
     Some (release_table (last_exit (release_dates fe (sentences_prep L src))))"
  "resolve (script_world L fe ps pe x s e src w) (cur w) (admit_name s e) =
     Some (admit_table (admit ps pe (sentences_prep L src)))"
  by (simp_all add: resolve_def temp_db_script_world main_db_script_world)

section \<open>Rows of the stored tables\<close>


lemma set_rows_release_table:
  "set (rows (release_table rel)) = (\<lambda>(i, e). [i, of_text e]) ` set rel"
  by (simp add: release_table_def)

lemma set_rows_admit_table:
  "set (rows (admit_table a)) = (\<lambda>(i, c, b). [i, of_int_opt c, of_text b]) ` set a"
  by (simp add: admit_table_def)

lemma set_release_dates:
  "(i, d) \<in> set (release_dates fe (sentences_prep L src)) \<longleftrightarrow>
   in_window ''2000-01-01'' fe d \<and> (\<exists>c b e. (i, c, b, e) \<in> set src \<and> sql_date L e = d)"
  by (force simp: release_dates_def sentences_prep_def)

lemma create_labels_success:
  assumes "create_labels L w fe ps pe conn = (w', Inr df)"
    and "parse_year L fe = Some x" "parse_year L ps = Some s" "parse_year L pe = Some e"
    and "from_sentences w = Inr src"
  shows "w' = script_world L fe ps pe x s e src w"
    and "read_sql (labels_name s e) conn w' = Inr df"
    and "\<not> clash w ''sentences_prep''" and "\<not> clash w (labels_name s e)"
    and "literal_ok fe" "literal_ok ps" "literal_ok pe"
  using create_labels_InrD [OF assms(1)] assms(2-) by auto

lemma released_iff:
  "released L fe src i \<longleftrightarrow>
   (\<exists>(j, c, b, en) \<in> set src. j = i \<and> in_window ''2000-01-01'' fe (sql_date L en))"
proof -
  have "released L fe src i \<longleftrightarrow> (\<exists>d. (i, d) \<in> set (release_dates fe (sentences_prep L src)))"
    unfolding keys_of_release [symmetric] by force
  then show ?thesis by (force simp: set_release_dates)
qed

lemma in_window_iff: "in_window lo hi d \<longleftrightarrow> (\<exists>t. d = Some t \<and> lo \<le> t \<and> t \<le> hi)"
  by (cases d) simp_all

section \<open>Failures, and what the call leaves alone\<close>


lemma fst_create_labels_conn:
  "fst (create_labels L w fe ps pe conn) = fst (create_labels L w fe ps pe conn')"
  by (simp add: create_labels_def split: option.splits prod.splits)

lemma resolve_labels_script_world:
  "resolve (script_world L fe ps pe x s e src w) conn (labels_name s e) =
     (if conn = cur w then Some (labels_table (labels_of L fe ps pe src))
      else case temp_db w conn (labels_name s e) of
             Some u \<Rightarrow> Some u
           | None \<Rightarrow> if db_of w conn = db_of w (cur w)
                     then Some (labels_table (labels_of L fe ps pe src))
                     else main_db w (db_of w conn) (labels_name s e))"
  by (simp add: resolve_def temp_db_script_world main_db_script_world split: option.splits)



lemma elsewhere_same_refl [simp]: "elsewhere_same w w"
  by (simp add: elsewhere_same_def)

lemma elsewhere_same_dropped [simp]:
  "elsewhere_same w w1 \<Longrightarrow> elsewhere_same w (dropped n w1)"
  by (simp add: elsewhere_same_def dropped_def)

lemma elsewhere_same_recreate [simp]:
  "elsewhere_same w w1 \<Longrightarrow> elsewhere_same w (recreate_temp n t w1)"
  "elsewhere_same w w1 \<Longrightarrow> elsewhere_same w (recreate_main n t w1)"
  by (simp_all add: elsewhere_same_def recreate_temp_def recreate_main_def dropped_def)

lemma elsewhere_same_script_world [simp]:
  "elsewhere_same w (script_world L fe ps pe x s e src w)"
  by (simp add: script_world_def Let_def)

lemma elsewhere_same_create_labels:
  "elsewhere_same w (fst (create_labels L w fe ps pe conn))"
  by (simp add: create_labels_def executescript_eq split: option.splits sum.splits)

section \<open>Runs on concrete stores\<close>

lemma notebook_source:
  "from_sentences (notebook_world rs) =
   Inr (map (\<lambda>r. (cell r 0, cell r 1, cell r 2, cell r 3)) rs)"
  by (simp add: from_sentences_def resolve_def notebook_world_def sentences_columns_def
      numeral_2_eq_2 numeral_3_eq_3)

lemma notebook_no_clash: "\<not> clash (notebook_world rs) n"
  by (simp add: clash_def temp_has_def notebook_world_def)

lemma notebook_cur: "cur (notebook_world rs) = 0"
  by (simp add: notebook_world_def)

lemma notebook_run:
  assumes "parse_year L fe = Some x" "parse_year L ps = Some s" "parse_year L pe = Some e"
    and "literal_ok fe" "literal_ok ps" "literal_ok pe"
    and "from_sentences (notebook_world rs) = Inr src"
  shows "create_labels L (notebook_world rs) fe ps pe (cur (notebook_world rs)) =
           (script_world L fe ps pe x s e src (notebook_world rs),
            Inr (labels_table (labels_of L fe ps pe src)))"
  by (simp add: create_labels_eq [OF assms notebook_no_clash notebook_no_clash] read_sql_cur)

lemma scenario_source: "from_sentences (notebook_world scenario_rows) = Inr scenario_src"
  by (simp add: notebook_source scenario_rows_def scenario_src_def cell_def)

lemma boundary_source: "from_sentences (notebook_world boundary_rows) = Inr boundary_src"
  by (simp add: notebook_source boundary_rows_def boundary_src_def cell_def)


lemma scenario_years:
  "parse_year iso_libs ''2008-12-31'' = Some 2008"
  "parse_year iso_libs ''2009-01-01'' = Some 2009"
  "parse_year iso_libs ''2013-12-31'' = Some 2013"
  by (simp_all add: iso_libs_def iso_year_lits)


lemma scenario_prep:
  "sentences_prep iso_libs scenario_src =
     [(VInt 1, Some 1, Some ''2009-03-01'', Some ''2005-06-01''),
      (VInt 1, Some 1, Some ''2010-01-01'', Some ''2009-12-31''),
      (VInt 2, Some 1, Some ''2001-01-01'', Some ''2003-01-01'')]"
  by (simp add: sentences_prep_def scenario_src_def iso_libs_def iso_date_lits
      plain_cast_integer_def)

lemma scenario_release:
  "release_dates ''2008-12-31'' (sentences_prep iso_libs scenario_src) =
     [(VInt 1, Some ''2005-06-01''), (VInt 2, Some ''2003-01-01'')]"
  by (simp add: scenario_prep release_dates_def)

lemma scenario_last_exit:
  "last_exit [(VInt 1, Some ''2005-06-01''), (VInt 2, Some ''2003-01-01'')] =
     [(VInt 1, Some ''2005-06-01''), (VInt 2, Some ''2003-01-01'')]"
  by (simp add: last_exit_def sql_max_def)

lemma scenario_admit:
  "admit ''2009-01-01'' ''2013-12-31'' (sentences_prep iso_libs scenario_src) =
     [(VInt 1, Some 1, Some ''2009-03-01''), (VInt 1, Some 1, Some ''2010-01-01'')]"
  by (simp add: scenario_prep admit_def)

lemma scenario_labels:
  "labels_of iso_libs ''2008-12-31'' ''2009-01-01'' ''2013-12-31'' scenario_src =
     [(VInt 1, 1), (VInt 2, 0)]"
  by (simp add: labels_of_def Let_def scenario_release scenario_last_exit scenario_admit
      recidivism_def recidivism_labels_def where_eq case_when_null_def)

lemma scenario_run:
  "create_labels iso_libs (notebook_world scenario_rows)
     ''2008-12-31'' ''2009-01-01'' ''2013-12-31'' (cur (notebook_world scenario_rows)) =
   (script_world iso_libs ''2008-12-31'' ''2009-01-01'' ''2013-12-31'' 2008 2009 2013
      scenario_src (notebook_world scenario_rows),
    Inr (labels_table [(VInt 1, 1), (VInt 2, 0)]))"
  using notebook_run [OF scenario_years literal_ok_lits(1-3) scenario_source]
  by (simp add: scenario_labels)

lemma scenario_released:
  "released iso_libs ''2008-12-31'' scenario_src (VInt 1)"
  "released iso_libs ''2008-12-31'' scenario_src (VInt 2)"
  by (simp_all add: released_def release_ends_def List.map_filter_simps scenario_src_def
      iso_libs_def iso_date_lits)

lemma scenario_admitted:
  "admitted iso_libs ''2009-01-01'' ''2013-12-31'' scenario_src (VInt 1)"
  "\<not> admitted iso_libs ''2009-01-01'' ''2013-12-31'' scenario_src (VInt 2)"
  by (simp_all add: admitted_def scenario_src_def iso_libs_def iso_date_lits
      plain_cast_integer_def)



section \<open>Windows of days and windows of texts\<close>


lemma valid_date_bounds:
  "valid_date (y, m, d) \<Longrightarrow> y \<le> 9999 \<and> m < 100 \<and> d < 100"
  using days_in_month_le [of y m] by (simp add: valid_date_def)

lemma iso_text_eq_iff:
  assumes "y \<le> 9999" "y' \<le> 9999" "m < 100" "m' < 100" "d < 100" "d' < 100"
  shows "iso_text (y, m, d) = iso_text (y', m', d') \<longleftrightarrow> y = y' \<and> m = m' \<and> d = d'"
  using assms by (simp add: iso_text_def pad4_eq_iff pad2_eq_iff)

lemma iso_text_le_iff:
  assumes "valid_date a" "valid_date b"
  shows "iso_text a \<le> iso_text b \<longleftrightarrow> date_le a b"
proof -
  obtain y m d where a: "a = (y, m, d)" by (cases a)
  obtain y' m' d' where b: "b = (y', m', d')" by (cases b)
  from assms a b have v: "y \<le> 9999" "y' \<le> 9999" "m < 100" "m' < 100" "d < 100" "d' < 100"
    by (auto dest: valid_date_bounds)
  have "iso_text a \<le> iso_text b \<longleftrightarrow> iso_text a < iso_text b \<or> iso_text a = iso_text b"
    by (rule le_less)
  also have "\<dots> \<longleftrightarrow> date_le a b"
    unfolding a b iso_text_less_iff [OF v] iso_text_eq_iff [OF v]
    by (auto simp: date_le_def)
  finally show ?thesis .
qed




lemma read_quoted_plain:
  "CHR 0x27 \<notin> set s \<Longrightarrow> read_quoted (s @ CHR 0x27 # CHR '';'' # []) = Some (s, '';'')"
proof (induction s)
  case Nil
  then show ?case by simp
next
  case (Cons c s)
  then show ?case by (cases s) auto
qed

lemma pasted_release_where_plain:
  "CHR 0x27 \<notin> set fe \<Longrightarrow>
   pasted_release_where fe = Some (\<lambda>e. sql_and (text_ge e ''2000-01-01'') (text_le e fe))"
  by (simp add: pasted_release_where_def read_quoted_plain)

lemma release_dates_pasted_plain:
  "literal_ok fe \<Longrightarrow> release_dates_pasted fe prep = Some (release_dates fe prep)"
  by (simp add: release_dates_pasted_def pasted_release_where_plain literal_ok_def
      release_dates_def)


text \<open>The bounds, likewise.\<close>

lemma window_bounds_text:
  assumes "create_labels L w features_end prediction_start prediction_end conn = (w', Inr df)"
    and "parse_year L features_end = Some x"
    and "parse_year L prediction_start = Some s"
    and "parse_year L prediction_end = Some e"
    and "from_sentences w = Inr src"
    and "(i, c, b, en) \<in> set src"
  shows "\<exists>t u. temp_db w' (cur w') (release_dates_name x) = Some t \<and>
           temp_db w' (cur w') (admit_name s e) = Some u \<and>
           (sql_date L en = Some features_end \<and> ''2000-01-01'' \<le> features_end \<longrightarrow>
              [i, VText features_end] \<in> set (rows t)) \<and>
           (sql_date L en = Some ''2000-01-01'' \<and> ''2000-01-01'' \<le> features_end \<longrightarrow>
              [i, VText ''2000-01-01''] \<in> set (rows t)) \<and>
           (\<forall>dt j. valid_date dt \<and> dt \<noteq> (9999, 12, 31) \<and> features_end = iso_text dt \<longrightarrow>
              [j, VText (iso_text (next_day dt))] \<notin> set (rows t)) \<and>
           (sql_cast_integer L c = Some 1 \<and> sql_date L b = Some prediction_start \<and>
            prediction_start \<le> prediction_end \<longrightarrow>
              [i, VInt 1, VText prediction_start] \<in> set (rows u)) \<and>
           (sql_cast_integer L c = Some 1 \<and> sql_date L b = Some prediction_end \<and>
            prediction_start \<le> prediction_end \<longrightarrow>
              [i, VInt 1, VText prediction_end] \<in> set (rows u))"
proof -
  note r = create_labels_success [OF assms(1-5)]
  let ?prep = "sentences_prep L src"
  let ?rel = "release_dates features_end ?prep"
  let ?adm = "admit prediction_start prediction_end ?prep"
  have t: "temp_db w' (cur w') (release_dates_name x) = Some (release_table ?rel)"
    by (simp add: r(1) temp_db_script_world)
  have u: "temp_db w' (cur w') (admit_name s e) = Some (admit_table ?adm)"
    by (simp add: r(1) temp_db_script_world)
  have 1: "[i, VText d] \<in> set (rows (release_table ?rel))"
    if "sql_date L en = Some d" "''2000-01-01'' \<le> d" "d \<le> features_end" for d
  proof -
    from that assms(6) have "(i, Some d) \<in> set ?rel"
      by (auto simp: set_release_dates)
    then have "(\<lambda>(i, e). [i, of_text e]) (i, Some d) \<in> set (rows (release_table ?rel))"
      unfolding set_rows_release_table by (rule imageI)
    then show ?thesis by (simp add: of_text_def)
  qed
  have 2: "[j, VText (iso_text (next_day dt))] \<notin> set (rows (release_table ?rel))"
    if "valid_date dt \<and> dt \<noteq> (9999, 12, 31) \<and> features_end = iso_text dt" for dt j
  proof
    assume "[j, VText (iso_text (next_day dt))] \<in> set (rows (release_table ?rel))"
    then obtain k d where "(k, d) \<in> set ?rel" and "[k, of_text d] = [j, VText (iso_text (next_day dt))]"
      by (auto simp: set_rows_release_table)
    then have "in_window ''2000-01-01'' features_end (Some (iso_text (next_day dt)))"
      by (cases d) (auto simp: set_release_dates of_text_def)
    then have "iso_text (next_day dt) \<le> iso_text dt" using that by simp
    moreover have "iso_text dt < iso_text (next_day dt)"
      using that by (simp add: iso_next_day_greater)
    ultimately show False by simp
  qed
  have 3: "[i, VInt 1, VText d] \<in> set (rows (admit_table ?adm))"
    if "sql_cast_integer L c = Some 1" "sql_date L b = Some d"
      "prediction_start \<le> d" "d \<le> prediction_end" for d
  proof -
    from that assms(6) have "(i, Some 1, Some d) \<in> set ?adm"
      by (auto simp: set_admit)
    then have "(\<lambda>(i, c, b). [i, of_int_opt c, of_text b]) (i, Some 1, Some d)
                 \<in> set (rows (admit_table ?adm))"
      unfolding set_rows_admit_table by (rule imageI)
    then show ?thesis by (simp add: of_text_def of_int_opt_def)
  qed
  from t u 1 [of features_end] 1 [of "''2000-01-01''"] 2
    3 [of prediction_start] 3 [of prediction_end]
  show ?thesis by (intro exI conjI) auto
qed

section \<open>More runs on concrete stores\<close>

lemma more_iso_parse_lits:
  "iso_parse ''1999-12-31'' = Some (1999, 12, 31)"
  "iso_parse ''1990-05-05'' = Some (1990, 5, 5)"
  by (simp_all add: iso_parse_def digits_value_def digit_value_def valid_date_def
      days_in_month_def leap_year_def)

lemma more_iso_date_lits:
  "iso_date (VText ''1999-12-31'') = Some ''1999-12-31''"
  "iso_date (VText ''1990-05-05'') = Some ''1990-05-05''"
  by (simp_all add: iso_date_def more_iso_parse_lits iso_text_def pad4_def pad2_def
      digit_char_def)

lemma iso_text_lits:
  "iso_text (2008, 12, 31) = ''2008-12-31''"
  "iso_text (2009, 1, 1) = ''2009-01-01''"
  "iso_text (2013, 12, 31) = ''2013-12-31''"
  "iso_text (2000, 1, 1) = ''2000-01-01''"
  "iso_text (1999, 12, 31) = ''1999-12-31''"
  by (simp_all add: iso_text_def pad4_def pad2_def digit_char_def)

lemma valid_date_lits:
  "valid_date (2008, 12, 31)" "valid_date (2009, 1, 1)" "valid_date (2013, 12, 31)"
  "valid_date (1999, 12, 31)"
  by (simp_all add: valid_date_def days_in_month_def)

lemma fuzzy_day_lits:
  "fuzzy_day ''2008-12-31'' = Some (2008, 12, 31)"
  "fuzzy_day ''2009-01-01'' = Some (2009, 1, 1)"
  "fuzzy_day ''2013-12-31'' = Some (2013, 12, 31)"
  "fuzzy_day ''Dec 31, 2008'' = Some (2008, 12, 31)"
  "fuzzy_day ''2009-01-01 00:00:00'' = Some (2009, 1, 1)"
  by (simp_all add: fuzzy_day_def iso_parse_lits month_number_def time_of_day_def
      digits_value_def digit_value_def valid_date_def days_in_month_def)

lemma fuzzy_years:
  "parse_year fuzzy_libs ''2008-12-31'' = Some 2008"
  "parse_year fuzzy_libs ''2009-01-01'' = Some 2009"
  "parse_year fuzzy_libs ''2013-12-31'' = Some 2013"
  "parse_year fuzzy_libs ''Dec 31, 2008'' = Some 2008"
  "parse_year fuzzy_libs ''2009-01-01 00:00:00'' = Some 2009"
  by (simp_all add: fuzzy_libs_def fuzzy_year_def fuzzy_day_lits)

lemma more_literal_ok:
  "literal_ok ''Dec 31, 2008''" "literal_ok ''2009-01-01 00:00:00''"
  by (simp_all add: literal_ok_def)

lemma sentences_prep_fuzzy: "sentences_prep fuzzy_libs src = sentences_prep iso_libs src"
  by (simp add: sentences_prep_def fuzzy_libs_def iso_libs_def)


lemma year_names_2008: "str_nat 2008 = ''2008''"
  by (simp add: str_nat.simps digit_char_def)




lemma boundary_prep:
  "sentences_prep iso_libs boundary_src =
     [(VInt 1, Some 1, Some ''2009-01-01'', Some ''2008-12-31''),
      (VInt 2, Some 1, Some ''2013-12-31'', Some ''2009-01-01''),
      (VInt 3, Some 1, Some ''2010-01-01'', Some ''2000-01-01'')]"
  by (simp add: sentences_prep_def boundary_src_def iso_libs_def iso_date_lits
      plain_cast_integer_def)

lemma early_source: "from_sentences (notebook_world early_rows) = Inr early_src"
  by (simp add: notebook_source early_rows_def early_src_def cell_def)

lemma early_prep:
  "sentences_prep iso_libs early_src =
     [(VInt 1, Some 1, Some ''2009-03-01'', Some ''1999-12-31''),
      (VInt 2, Some 1, Some ''2010-01-01'', Some ''1990-05-05''),
      (VInt 3, Some 1, Some ''2001-01-01'', Some ''2003-01-01'')]"
  by (simp add: sentences_prep_def early_src_def iso_libs_def iso_date_lits more_iso_date_lits
      plain_cast_integer_def)

lemma early_release:
  "release_dates ''2008-12-31'' (sentences_prep iso_libs early_src) =
     [(VInt 3, Some ''2003-01-01'')]"
  by (simp add: early_prep release_dates_def)

lemma early_admit:
  "admit ''2009-01-01'' ''2013-12-31'' (sentences_prep iso_libs early_src) =
     [(VInt 1, Some 1, Some ''2009-03-01''), (VInt 2, Some 1, Some ''2010-01-01'')]"
  by (simp add: early_prep admit_def)

lemma early_labels:
  "labels_of iso_libs ''2008-12-31'' ''2009-01-01'' ''2013-12-31'' early_src = [(VInt 3, 0)]"
proof -
  have l: "last_exit [(VInt 3, Some ''2003-01-01'')] = [(VInt 3, Some ''2003-01-01'')]"
    by (simp add: last_exit_def sql_max_def)
  show ?thesis
    by (simp add: labels_of_def Let_def early_release l early_admit recidivism_def
        recidivism_labels_def case_when_null_def where_eq)
qed


section \<open>Where the rows of the two filtered tables come from\<close>




section \<open>The release filter with a quote in the argument\<close>

lemma pasted_release_where_quoted:
  "pasted_release_where quoted_bound =
     Some (\<lambda>e. sql_or (sql_and (text_ge e ''2000-01-01'') (text_le e ''2008-12-31''))
                  (Some True))"
  by (simp add: pasted_release_where_def quoted_bound_def)

lemma sql_or_true: "sql_or a (Some True) = Some True"
proof (cases a)
  case None
  then show ?thesis by simp
next
  case (Some b)
  then show ?thesis by (cases b) simp_all
qed

lemma early_release_pasted:
  "release_dates_pasted quoted_bound (sentences_prep iso_libs early_src) =
     Some [(VInt 1, Some ''1999-12-31''), (VInt 2, Some ''1990-05-05''),
           (VInt 3, Some ''2003-01-01'')]"
  unfolding release_dates_pasted_def pasted_release_where_quoted early_prep
  by (simp add: where_true_def sql_or_true)

lemma early_labels_pasted:
  "recidivism_labels
     (recidivism
        (last_exit [(VInt 1, Some ''1999-12-31''), (VInt 2, Some ''1990-05-05''),
                    (VInt 3, Some ''2003-01-01'')])
        (admit ''2009-01-01'' ''2013-12-31'' (sentences_prep iso_libs early_src))) =
     [(VInt 1, 1), (VInt 2, 1), (VInt 3, 0)]"
proof -
  have l: "last_exit [(VInt 1, Some ''1999-12-31''), (VInt 2, Some ''1990-05-05''),
                      (VInt 3, Some ''2003-01-01'')] =
           [(VInt 1, Some ''1999-12-31''), (VInt 2, Some ''1990-05-05''),
            (VInt 3, Some ''2003-01-01'')]"
    by (simp add: last_exit_def sql_max_def)
  show ?thesis
    by (simp add: l early_admit recidivism_def recidivism_labels_def case_when_null_def where_eq)
qed

section \<open>The claims\<close>








text \<open>
  C4. On the three rows of the specification's scenario, with the historical window
  ending 2008-12-31 and the prediction window 2009-01-01 to 2013-12-31,
  \<^verbatim>\<open>create_labels\<close> returns exactly the labels (1, 1) and (2, 0).
\<close>

theorem scenario_label_set:
  "snd (create_labels iso_libs (notebook_world scenario_rows)
          ''2008-12-31'' ''2009-01-01'' ''2013-12-31'' 0) =
   Inr \<lparr>columns = [''inmate_doc_number'', ''recidivism''],
        rows = [[VInt 1, VInt 1], [VInt 2, VInt 0]]\<rparr>"
  using scenario_run by (simp add: notebook_cur labels_table_def)

text \<open>
  C5, as the specification has it: the bounds of both windows are included, a release
  dated one day after the end of the historical window is excluded, and an admission
  dated \<^verbatim>\<open>prediction_start\<close> or \<^verbatim>\<open>prediction_end\<close> is included. The script compares
  the text of \<^verbatim>\<open>date()\<close> with the arguments as they were passed. With \<^verbatim>\<open>features_end\<close>
  written \<^verbatim>\<open>Dec 31, 2008\<close> the release of individual 2 on 2009-01-01, one day later, is
  in the release table; with \<^verbatim>\<open>prediction_start\<close> written \<^verbatim>\<open>2009-01-01 00:00:00\<close> the
  admission of individual 1 on 2009-01-01 is not in the admission table.
\<close>

theorem bounds_missed_in_other_forms:
  "fuzzy_day ''Dec 31, 2008'' = Some (2008, 12, 31) \<and>
   next_day (2008, 12, 31) = (2009, 1, 1) \<and>
   (VInt 2, VInt 1, VText ''2013-12-31'', VText ''2009-01-01'') \<in> set boundary_src \<and>
   temp_db (fst (create_labels fuzzy_libs (notebook_world boundary_rows)
                   ''Dec 31, 2008'' ''2009-01-01'' ''2013-12-31'' 0)) 0
     (release_dates_name 2008) =
     Some \<lparr>columns = [''inmate_doc_number'', ''sentence_end_date''],
           rows = [[VInt 1, VText ''2008-12-31''], [VInt 2, VText ''2009-01-01''],
                   [VInt 3, VText ''2000-01-01'']]\<rparr> \<and>
   fuzzy_day ''2009-01-01 00:00:00'' = Some (2009, 1, 1) \<and>
   (VInt 1, VInt 1, VText ''2009-01-01'', VText ''2008-12-31'') \<in> set boundary_src \<and>
   temp_db (fst (create_labels fuzzy_libs (notebook_world boundary_rows)
                   ''2008-12-31'' ''2009-01-01 00:00:00'' ''2013-12-31'' 0)) 0
     (admit_name 2009 2013) =
     Some \<lparr>columns = [''inmate_doc_number'', ''sentence_component'', ''sentence_begin_date''],
           rows = [[VInt 2, VInt 1, VText ''2013-12-31''],
                   [VInt 3, VInt 1, VText ''2010-01-01'']]\<rparr>"
proof -
  have n: "next_day (2008, 12, 31) = (2009, 1, 1)"
    by (simp add: next_day_def days_in_month_def)
  have m: "(VInt 2, VInt 1, VText ''2013-12-31'', VText ''2009-01-01'') \<in> set boundary_src"
    "(VInt 1, VInt 1, VText ''2009-01-01'', VText ''2008-12-31'') \<in> set boundary_src"
    by (simp_all add: boundary_src_def)
  have r: "release_dates ''Dec 31, 2008'' (sentences_prep iso_libs boundary_src) =
             [(VInt 1, Some ''2008-12-31''), (VInt 2, Some ''2009-01-01''),
              (VInt 3, Some ''2000-01-01'')]"
    by (simp add: boundary_prep release_dates_def)
  have a: "admit ''2009-01-01 00:00:00'' ''2013-12-31'' (sentences_prep iso_libs boundary_src) =
             [(VInt 2, Some 1, Some ''2013-12-31''), (VInt 3, Some 1, Some ''2010-01-01'')]"
    by (simp add: boundary_prep admit_def)
  have 1: "temp_db (fst (create_labels fuzzy_libs (notebook_world boundary_rows)
                   ''Dec 31, 2008'' ''2009-01-01'' ''2013-12-31'' 0)) 0
     (release_dates_name 2008) =
     Some \<lparr>columns = [''inmate_doc_number'', ''sentence_end_date''],
           rows = [[VInt 1, VText ''2008-12-31''], [VInt 2, VText ''2009-01-01''],
                   [VInt 3, VText ''2000-01-01'']]\<rparr>"
    using notebook_run [OF fuzzy_years(4,2,3) more_literal_ok(1) literal_ok_lits(2,3)
        boundary_source]
    by (simp add: notebook_cur temp_db_script_world sentences_prep_fuzzy r release_table_def
        of_text_def)
  have 2: "temp_db (fst (create_labels fuzzy_libs (notebook_world boundary_rows)
                   ''2008-12-31'' ''2009-01-01 00:00:00'' ''2013-12-31'' 0)) 0
     (admit_name 2009 2013) =
     Some \<lparr>columns = [''inmate_doc_number'', ''sentence_component'', ''sentence_begin_date''],
           rows = [[VInt 2, VInt 1, VText ''2013-12-31''],
                   [VInt 3, VInt 1, VText ''2010-01-01'']]\<rparr>"
    using notebook_run [OF fuzzy_years(1,5,3) literal_ok_lits(1) more_literal_ok(2)
        literal_ok_lits(3) boundary_source]
    by (simp add: notebook_cur temp_db_script_world sentences_prep_fuzzy a admit_table_def
        of_text_def of_int_opt_def)
  from n m 1 2 fuzzy_day_lits(4,5) show ?thesis by blast
qed

text \<open>
  C5, amended. When the three bounds are days written \<^verbatim>\<open>YYYY-MM-DD\<close>, as \<^verbatim>\<open>date()\<close>
  writes a day, the bounds of both windows are included: a release dated on the end of
  the historical window is in the release table, as is one dated 2000-01-01, its first
  day, and a release dated one day after the end is not; an admission (component
  number 1) dated \<^verbatim>\<open>prediction_start\<close> or \<^verbatim>\<open>prediction_end\<close> is in the admission table.
  The windows are not empty.
\<close>

theorem window_bounds_inclusive_on_days:
  assumes "create_labels L w features_end prediction_start prediction_end conn = (w', Inr df)"
    and "parse_year L features_end = Some x"
    and "parse_year L prediction_start = Some s"
    and "parse_year L prediction_end = Some e"
    and "from_sentences w = Inr src"
    and "(i, c, bg, en) \<in> set src"
    and "valid_date fd" and "features_end = iso_text fd"
    and "valid_date sd" and "prediction_start = iso_text sd"
    and "valid_date ed" and "prediction_end = iso_text ed"
  shows "\<exists>t u. temp_db w' (cur w') (release_dates_name x) = Some t \<and>
           temp_db w' (cur w') (admit_name s e) = Some u \<and>
           (sql_date L en = Some (iso_text fd) \<and> date_le (2000, 1, 1) fd \<longrightarrow>
              [i, VText (iso_text fd)] \<in> set (rows t)) \<and>
           (sql_date L en = Some (iso_text (2000, 1, 1)) \<and> date_le (2000, 1, 1) fd \<longrightarrow>
              [i, VText (iso_text (2000, 1, 1))] \<in> set (rows t)) \<and>
           (fd \<noteq> (9999, 12, 31) \<longrightarrow>
              (\<forall>j. [j, VText (iso_text (next_day fd))] \<notin> set (rows t))) \<and>
           (sql_cast_integer L c = Some 1 \<and> sql_date L bg = Some (iso_text sd) \<and>
            date_le sd ed \<longrightarrow>
              [i, VInt 1, VText (iso_text sd)] \<in> set (rows u)) \<and>
           (sql_cast_integer L c = Some 1 \<and> sql_date L bg = Some (iso_text ed) \<and>
            date_le sd ed \<longrightarrow>
              [i, VInt 1, VText (iso_text ed)] \<in> set (rows u))"
proof -
  have v: "valid_date (2000, 1, 1)" by (simp add: valid_date_def days_in_month_def)
  have lo: "''2000-01-01'' \<le> iso_text fd \<longleftrightarrow> date_le (2000, 1, 1) fd"
    using iso_text_le_iff [OF v assms(7)] by (simp only: iso_2000)
  have w: "iso_text sd \<le> iso_text ed \<longleftrightarrow> date_le sd ed"
    using assms(9,11) by (rule iso_text_le_iff)
  from window_bounds_text [OF assms(1-6)]
  obtain t u where t: "temp_db w' (cur w') (release_dates_name x) = Some t"
    and u: "temp_db w' (cur w') (admit_name s e) = Some u"
    and 1: "sql_date L en = Some features_end \<and> ''2000-01-01'' \<le> features_end \<longrightarrow>
              [i, VText features_end] \<in> set (rows t)"
    and 2: "sql_date L en = Some ''2000-01-01'' \<and> ''2000-01-01'' \<le> features_end \<longrightarrow>
              [i, VText ''2000-01-01''] \<in> set (rows t)"
    and 3: "\<forall>dt j. valid_date dt \<and> dt \<noteq> (9999, 12, 31) \<and> features_end = iso_text dt \<longrightarrow>
              [j, VText (iso_text (next_day dt))] \<notin> set (rows t)"
    and 4: "sql_cast_integer L c = Some 1 \<and> sql_date L bg = Some prediction_start \<and>
            prediction_start \<le> prediction_end \<longrightarrow>
              [i, VInt 1, VText prediction_start] \<in> set (rows u)"
    and 5: "sql_cast_integer L c = Some 1 \<and> sql_date L bg = Some prediction_end \<and>
            prediction_start \<le> prediction_end \<longrightarrow>
              [i, VInt 1, VText prediction_end] \<in> set (rows u)"
    by blast
  have a: "sql_date L en = Some (iso_text fd) \<and> date_le (2000, 1, 1) fd \<longrightarrow>
              [i, VText (iso_text fd)] \<in> set (rows t)"
    using 1 lo unfolding assms(8) by blast
  have b: "sql_date L en = Some (iso_text (2000, 1, 1)) \<and> date_le (2000, 1, 1) fd \<longrightarrow>
              [i, VText (iso_text (2000, 1, 1))] \<in> set (rows t)"
    using 2 lo unfolding assms(8) iso_2000 by blast
  have c: "fd \<noteq> (9999, 12, 31) \<longrightarrow> (\<forall>j. [j, VText (iso_text (next_day fd))] \<notin> set (rows t))"
    using 3 assms(7,8) by blast
  have d: "sql_cast_integer L c = Some 1 \<and> sql_date L bg = Some (iso_text sd) \<and>
            date_le sd ed \<longrightarrow> [i, VInt 1, VText (iso_text sd)] \<in> set (rows u)"
    using 4 w unfolding assms(10,12) by blast
  have e: "sql_cast_integer L c = Some 1 \<and> sql_date L bg = Some (iso_text ed) \<and>
            date_le sd ed \<longrightarrow> [i, VInt 1, VText (iso_text ed)] \<in> set (rows u)"
    using 5 w unfolding assms(10,12) by blast
  from t u a b c d e show ?thesis by blast
qed

theorem window_bounds_inclusive_on_days_witness:
  "create_labels iso_libs (notebook_world boundary_rows)
     ''2008-12-31'' ''2009-01-01'' ''2013-12-31'' (cur (notebook_world boundary_rows)) =
     (script_world iso_libs ''2008-12-31'' ''2009-01-01'' ''2013-12-31'' 2008 2009 2013
        boundary_src (notebook_world boundary_rows),
      Inr (labels_table
        (labels_of iso_libs ''2008-12-31'' ''2009-01-01'' ''2013-12-31'' boundary_src))) \<and>
   from_sentences (notebook_world boundary_rows) = Inr boundary_src \<and>
   (VInt 1, VInt 1, VText ''2009-01-01'', VText ''2008-12-31'') \<in> set boundary_src \<and>
   (VInt 2, VInt 1, VText ''2013-12-31'', VText ''2009-01-01'') \<in> set boundary_src \<and>
   (VInt 3, VInt 1, VText ''2010-01-01'', VText ''2000-01-01'') \<in> set boundary_src \<and>
   valid_date (2008, 12, 31) \<and> ''2008-12-31'' = iso_text (2008, 12, 31) \<and>
   valid_date (2009, 1, 1) \<and> ''2009-01-01'' = iso_text (2009, 1, 1) \<and>
   valid_date (2013, 12, 31) \<and> ''2013-12-31'' = iso_text (2013, 12, 31) \<and>
   date_le (2000, 1, 1) (2008, 12, 31) \<and> date_le (2009, 1, 1) (2013, 12, 31) \<and>
   next_day (2008, 12, 31) = (2009, 1, 1) \<and>
   (\<exists>t u. temp_db (script_world iso_libs ''2008-12-31'' ''2009-01-01'' ''2013-12-31''
                     2008 2009 2013 boundary_src (notebook_world boundary_rows)) 0
              (release_dates_name 2008) = Some t \<and>
          temp_db (script_world iso_libs ''2008-12-31'' ''2009-01-01'' ''2013-12-31''
                     2008 2009 2013 boundary_src (notebook_world boundary_rows)) 0
              (admit_name 2009 2013) = Some u \<and>
          [VInt 1, VText ''2008-12-31''] \<in> set (rows t) \<and>
          [VInt 3, VText ''2000-01-01''] \<in> set (rows t) \<and>
          [VInt 2, VText ''2009-01-01''] \<notin> set (rows t) \<and>
          [VInt 1, VInt 1, VText ''2009-01-01''] \<in> set (rows u) \<and>
          [VInt 2, VInt 1, VText ''2013-12-31''] \<in> set (rows u))"
proof -
  let ?W = "script_world iso_libs ''2008-12-31'' ''2009-01-01'' ''2013-12-31''
              2008 2009 2013 boundary_src (notebook_world boundary_rows)"
  note run = notebook_run [OF scenario_years literal_ok_lits(1-3) boundary_source]
  have r1: "(VInt 1, VInt 1, VText ''2009-01-01'', VText ''2008-12-31'') \<in> set boundary_src"
    and r2: "(VInt 2, VInt 1, VText ''2013-12-31'', VText ''2009-01-01'') \<in> set boundary_src"
    and r3: "(VInt 3, VInt 1, VText ''2010-01-01'', VText ''2000-01-01'') \<in> set boundary_src"
    by (simp_all add: boundary_src_def)
  have i: "''2008-12-31'' = iso_text (2008, 12, 31)" "''2009-01-01'' = iso_text (2009, 1, 1)"
    "''2013-12-31'' = iso_text (2013, 12, 31)"
    by (simp_all only: iso_text_lits)
  have dl: "date_le (2000, 1, 1) (2008, 12, 31)" "date_le (2009, 1, 1) (2013, 12, 31)"
    by (simp_all add: date_le_def)
  have n: "next_day (2008, 12, 31) = (2009, 1, 1)"
    by (simp add: next_day_def days_in_month_def)
  have ne: "(2008, 12, 31) \<noteq> (9999 :: nat, 12 :: nat, 31 :: nat)" by simp
  have f: "sql_date iso_libs (VText ''2008-12-31'') = Some (iso_text (2008, 12, 31))"
    "sql_date iso_libs (VText ''2000-01-01'') = Some (iso_text (2000, 1, 1))"
    "sql_date iso_libs (VText ''2009-01-01'') = Some (iso_text (2009, 1, 1))"
    "sql_date iso_libs (VText ''2013-12-31'') = Some (iso_text (2013, 12, 31))"
    "sql_cast_integer iso_libs (VInt 1) = Some 1"
    unfolding iso_text_lits by (simp_all add: iso_libs_def iso_date_lits plain_cast_integer_def)
  have c: "cur ?W = 0" by (simp add: notebook_cur)
  note th = window_bounds_inclusive_on_days [OF run scenario_years boundary_source _
      valid_date_lits(1) i(1) valid_date_lits(2) i(2) valid_date_lits(3) i(3)]
  from th [OF r1] f(1,3,5) dl ne
  obtain t u where t: "temp_db ?W 0 (release_dates_name 2008) = Some t"
    and u: "temp_db ?W 0 (admit_name 2009 2013) = Some u"
    and a: "[VInt 1, VText (iso_text (2008, 12, 31))] \<in> set (rows t)"
    and b: "\<forall>j. [j, VText (iso_text (next_day (2008, 12, 31)))] \<notin> set (rows t)"
    and d: "[VInt 1, VInt 1, VText (iso_text (2009, 1, 1))] \<in> set (rows u)"
    unfolding c by blast
  from th [OF r2] f(4,5) dl u
  have e: "[VInt 2, VInt 1, VText (iso_text (2013, 12, 31))] \<in> set (rows u)"
    unfolding c by auto
  from th [OF r3] f(2) dl t
  have g: "[VInt 3, VText (iso_text (2000, 1, 1))] \<in> set (rows t)"
    unfolding c by auto
  from b have b': "[VInt 2, VText (iso_text (2009, 1, 1))] \<notin> set (rows t)"
    by (simp only: n) blast
  note rs = a [unfolded iso_text_lits] g [unfolded iso_text_lits] b' [unfolded iso_text_lits]
    d [unfolded iso_text_lits] e [unfolded iso_text_lits]
  from rs run boundary_source r1 r2 r3 valid_date_lits(1-3) i dl n t u show ?thesis by blast
qed




text \<open>
  C7. A second call of \<^verbatim>\<open>create_labels\<close> with the same arguments, on the store the
  first call has left, drops and makes every table again and returns the same table as
  the first; the store is the same after it as before it.
\<close>

theorem second_call_same_result:
  assumes "create_labels L w features_end prediction_start prediction_end conn = (w', Inr df)"
  shows "create_labels L w' features_end prediction_start prediction_end conn = (w', Inr df)"
proof -
  obtain x s e src where p: "parse_year L features_end = Some x"
      "parse_year L prediction_start = Some s" "parse_year L prediction_end = Some e"
    and src: "from_sentences w = Inr src"
    using create_labels_InrD [OF assms] by blast
  note r = create_labels_success [OF assms p src]
  have "from_sentences w' = Inr src" by (simp add: r(1) src)
  moreover have "\<not> clash w' ''sentences_prep''" "\<not> clash w' (labels_name s e)"
    by (simp_all add: r(1))
  ultimately have "create_labels L w' features_end prediction_start prediction_end conn =
      (script_world L features_end prediction_start prediction_end x s e src w',
       read_sql (labels_name s e) conn
         (script_world L features_end prediction_start prediction_end x s e src w'))"
    using p r(5-7) by (intro create_labels_eq)
  moreover have "script_world L features_end prediction_start prediction_end x s e src w' = w'"
    by (simp add: r(1) script_world_idem)
  ultimately show ?thesis by (simp add: r(2))
qed

theorem second_call_same_result_witness:
  "create_labels iso_libs (notebook_world scenario_rows)
     ''2008-12-31'' ''2009-01-01'' ''2013-12-31'' (cur (notebook_world scenario_rows)) =
     (script_world iso_libs ''2008-12-31'' ''2009-01-01'' ''2013-12-31'' 2008 2009 2013
        scenario_src (notebook_world scenario_rows),
      Inr (labels_table [(VInt 1, 1), (VInt 2, 0)])) \<and>
   create_labels iso_libs
     (script_world iso_libs ''2008-12-31'' ''2009-01-01'' ''2013-12-31'' 2008 2009 2013
        scenario_src (notebook_world scenario_rows))
     ''2008-12-31'' ''2009-01-01'' ''2013-12-31'' (cur (notebook_world scenario_rows)) =
     (script_world iso_libs ''2008-12-31'' ''2009-01-01'' ''2013-12-31'' 2008 2009 2013
        scenario_src (notebook_world scenario_rows),
      Inr (labels_table [(VInt 1, 1), (VInt 2, 0)]))"
  using second_call_same_result [OF scenario_run] scenario_run by simp

text \<open>
  C8. \<^verbatim>\<open>create_labels\<close> leaves in the database a table of the main schema (not a
  temporary one) named \<^verbatim>\<open>recidivism_labels_<start_year>_<end_year>\<close>, the two years being
  those that the parser reads from \<^verbatim>\<open>prediction_start\<close> and \<^verbatim>\<open>prediction_end\<close>, and
  returns the content of that table, with the columns \<^verbatim>\<open>inmate_doc_number\<close> and
  \<^verbatim>\<open>recidivism\<close>. The connection passed is one that sees the table: it is on the database
  of the global cursor and has no temporary table of that name.
\<close>

theorem labels_table_named_by_years:
  assumes "create_labels L w features_end prediction_start prediction_end conn = (w', Inr df)"
    and "parse_year L prediction_start = Some start_y_year"
    and "parse_year L prediction_end = Some end_y_year"
    and "db_of w conn = db_of w (cur w)"
    and "conn = cur w \<or>
         temp_db w conn (''recidivism_labels_'' @ str_nat start_y_year @ ''_'' @ str_nat end_y_year)
           = None"
  shows "main_db w' (db_of w' (cur w'))
           (''recidivism_labels_'' @ str_nat start_y_year @ ''_'' @ str_nat end_y_year) = Some df \<and>
         temp_db w' (cur w')
           (''recidivism_labels_'' @ str_nat start_y_year @ ''_'' @ str_nat end_y_year) = None \<and>
         columns df = [''inmate_doc_number'', ''recidivism'']"
proof -
  obtain x src where p: "parse_year L features_end = Some x" and src: "from_sentences w = Inr src"
    using create_labels_InrD [OF assms(1)] by blast
  note r = create_labels_success [OF assms(1) p assms(2,3) src]
  let ?n = "labels_name start_y_year end_y_year"
  have n: "''recidivism_labels_'' @ str_nat start_y_year @ ''_'' @ str_nat end_y_year = ?n"
    by (simp add: labels_name_def)
  have m: "main_db w' (db_of w' (cur w')) ?n =
           Some (labels_table (labels_of L features_end prediction_start prediction_end src))"
    by (simp add: r(1) main_db_script_world)
  have t: "temp_db w' (cur w') ?n = None"
    by (simp add: r(1) temp_db_script_world)
  have "resolve w' conn ?n =
        Some (labels_table (labels_of L features_end prediction_start prediction_end src))"
    using assms(4,5) unfolding n
    by (auto simp: resolve_def r(1) temp_db_script_world main_db_script_world)
  with r(2) have "df = labels_table (labels_of L features_end prediction_start prediction_end src)"
    by (simp add: read_sql_def)
  with m t show ?thesis unfolding n by (simp add: rows_labels_table)
qed

theorem labels_table_named_by_years_witness:
  "create_labels iso_libs (notebook_world scenario_rows)
     ''2008-12-31'' ''2009-01-01'' ''2013-12-31'' (cur (notebook_world scenario_rows)) =
     (script_world iso_libs ''2008-12-31'' ''2009-01-01'' ''2013-12-31'' 2008 2009 2013
        scenario_src (notebook_world scenario_rows),
      Inr (labels_table [(VInt 1, 1), (VInt 2, 0)])) \<and>
   parse_year iso_libs ''2009-01-01'' = Some 2009 \<and>
   parse_year iso_libs ''2013-12-31'' = Some 2013 \<and>
   main_db (script_world iso_libs ''2008-12-31'' ''2009-01-01'' ''2013-12-31'' 2008 2009 2013
              scenario_src (notebook_world scenario_rows)) ''ncdoc.db''
     ''recidivism_labels_2009_2013'' = Some (labels_table [(VInt 1, 1), (VInt 2, 0)]) \<and>
   temp_db (script_world iso_libs ''2008-12-31'' ''2009-01-01'' ''2013-12-31'' 2008 2009 2013
              scenario_src (notebook_world scenario_rows)) 0
     ''recidivism_labels_2009_2013'' = None"
proof -
  have d: "db_of (notebook_world scenario_rows) 0 = ''ncdoc.db''"
    by (simp add: notebook_world_def)
  show ?thesis
    using labels_table_named_by_years [OF scenario_run scenario_years(2,3) refl disjI1 [OF refl]]
      scenario_run
    by (simp add: scenario_years notebook_cur year_names d)
qed

text \<open>
  C9, as the specification has it: for every invocation the historical window begins on
  2000-01-01, whatever the arguments, and a release before that day is never counted.
  Line 291 pastes \<^verbatim>\<open>features_end\<close> into the filter between quotes. With the argument
  \<^verbatim>\<open>2008-12-31' or ''='\<close> the filter reads
  \<^verbatim>\<open>sentence_end_date >= '2000-01-01' and sentence_end_date <= '2008-12-31' or ''=''\<close>,
  which holds of every row: the releases of 1999-12-31 and 1990-05-05 are in the
  release table, and individuals 1 and 2, who have no other release, are labelled.
  With \<^verbatim>\<open>2008-12-31\<close> for argument the same rows give individual 3 alone.
\<close>

theorem lower_bound_lost_with_quote:
  "release_dates_pasted quoted_bound (sentences_prep iso_libs early_src) =
     Some [(VInt 1, Some ''1999-12-31''), (VInt 2, Some ''1990-05-05''),
           (VInt 3, Some ''2003-01-01'')] \<and>
   ''1999-12-31'' < ''2000-01-01'' \<and> ''1990-05-05'' < ''2000-01-01'' \<and>
   recidivism_labels
     (recidivism
        (last_exit [(VInt 1, Some ''1999-12-31''), (VInt 2, Some ''1990-05-05''),
                    (VInt 3, Some ''2003-01-01'')])
        (admit ''2009-01-01'' ''2013-12-31'' (sentences_prep iso_libs early_src))) =
     [(VInt 1, 1), (VInt 2, 1), (VInt 3, 0)] \<and>
   release_dates_pasted ''2008-12-31'' (sentences_prep iso_libs early_src) =
     Some [(VInt 3, Some ''2003-01-01'')]"
proof -
  have "''1999-12-31'' < ''2000-01-01''" "''1990-05-05'' < ''2000-01-01''"
    by simp_all
  moreover have "release_dates_pasted ''2008-12-31'' (sentences_prep iso_libs early_src) =
     Some [(VInt 3, Some ''2003-01-01'')]"
    by (simp only: release_dates_pasted_plain [OF literal_ok_lits(1)] early_release)
  ultimately show ?thesis
    using early_release_pasted early_labels_pasted by blast
qed

text \<open>
  C9, amended. For every invocation whose three arguments have no quote character in
  them (nor a NUL), the historical window begins on 2000-01-01: every row of the
  release table has an end date from that day on (and up to \<^verbatim>\<open>features_end\<close>, the only
  bound that the caller sets), every labelled individual has a release in that range,
  and a release on a day before 2000 is in no release table.
\<close>

theorem historical_window_starts_2000_unquoted:
  assumes "create_labels L w features_end prediction_start prediction_end conn = (w', Inr df)"
    and "parse_year L features_end = Some x"
    and "parse_year L prediction_start = Some s"
    and "parse_year L prediction_end = Some e"
    and "from_sentences w = Inr src"
    and "literal_ok features_end"
    and "literal_ok prediction_start"
    and "literal_ok prediction_end"
  shows "\<exists>t u. temp_db w' (cur w') (release_dates_name x) = Some t \<and>
           main_db w' (db_of w' (cur w')) (labels_name s e) = Some u \<and>
           (\<forall>r \<in> set (rows t). \<exists>i d. r = [i, VText d] \<and> ''2000-01-01'' \<le> d \<and> d \<le> features_end) \<and>
           (\<forall>r \<in> set (rows u). \<exists>(j, c, b, en) \<in> set src.
               j = cell r 0 \<and>
               (\<exists>d. sql_date L en = Some d \<and> ''2000-01-01'' \<le> d \<and> d \<le> features_end)) \<and>
           (\<forall>dt j. valid_date dt \<and> fst dt < 2000 \<longrightarrow> [j, VText (iso_text dt)] \<notin> set (rows t))"
proof -
  note r = create_labels_success [OF assms(1-5)]
  let ?rel = "release_dates features_end (sentences_prep L src)"
  let ?ls = "labels_of L features_end prediction_start prediction_end src"
  have t: "temp_db w' (cur w') (release_dates_name x) = Some (release_table ?rel)"
    by (simp add: r(1) temp_db_script_world)
  have u: "main_db w' (db_of w' (cur w')) (labels_name s e) = Some (labels_table ?ls)"
    by (simp add: r(1) main_db_script_world)
  have a: "\<exists>i d. r = [i, VText d] \<and> ''2000-01-01'' \<le> d \<and> d \<le> features_end"
    if "r \<in> set (rows (release_table ?rel))" for r
    using that by (auto simp: set_rows_release_table set_release_dates in_window_iff of_text_def)
  have b: "\<exists>(j, c, b, en) \<in> set src. j = cell r 0 \<and>
             (\<exists>d. sql_date L en = Some d \<and> ''2000-01-01'' \<le> d \<and> d \<le> features_end)"
    if "r \<in> set (rows (labels_table ?ls))" for r
  proof -
    from that obtain i l where "(i, l) \<in> set ?ls" and "r = [i, VInt l]"
      by (auto simp: rows_labels_table)
    then have "released L features_end src (cell r 0)"
      by (simp add: set_labels_of cell_def)
    then show ?thesis by (simp add: released_iff in_window_iff)
  qed
  have c: "[j, VText (iso_text dt)] \<notin> set (rows (release_table ?rel))"
    if "valid_date dt \<and> fst dt < 2000" for dt j
  proof
    assume "[j, VText (iso_text dt)] \<in> set (rows (release_table ?rel))"
    from a [OF this] have "''2000-01-01'' \<le> iso_text dt" by simp
    moreover from that have "iso_text dt < ''2000-01-01''" by (simp add: iso_before_2000)
    ultimately show False by simp
  qed
  from t u a b c show ?thesis by blast
qed

theorem historical_window_starts_2000_unquoted_witness:
  "create_labels iso_libs (notebook_world early_rows)
     ''2008-12-31'' ''2009-01-01'' ''2013-12-31'' (cur (notebook_world early_rows)) =
     (script_world iso_libs ''2008-12-31'' ''2009-01-01'' ''2013-12-31'' 2008 2009 2013
        early_src (notebook_world early_rows),
      Inr (labels_table [(VInt 3, 0)])) \<and>
   parse_year iso_libs ''2008-12-31'' = Some 2008 \<and>
   parse_year iso_libs ''2009-01-01'' = Some 2009 \<and>
   parse_year iso_libs ''2013-12-31'' = Some 2013 \<and>
   from_sentences (notebook_world early_rows) = Inr early_src \<and>
   literal_ok ''2008-12-31'' \<and> literal_ok ''2009-01-01'' \<and> literal_ok ''2013-12-31'' \<and>
   (VInt 1, VInt 1, VText ''2009-03-01'', VText ''1999-12-31'') \<in> set early_src \<and>
   sql_date iso_libs (VText ''1999-12-31'') = Some ''1999-12-31'' \<and>
   valid_date (1999, 12, 31) \<and> iso_text (1999, 12, 31) = ''1999-12-31'' \<and>
   (\<exists>t. temp_db (script_world iso_libs ''2008-12-31'' ''2009-01-01'' ''2013-12-31''
                   2008 2009 2013 early_src (notebook_world early_rows)) 0
            (release_dates_name 2008) = Some t \<and>
        rows t = [[VInt 3, VText ''2003-01-01'']] \<and>
        (\<forall>r \<in> set (rows t). \<exists>i d. r = [i, VText d] \<and> ''2000-01-01'' \<le> d \<and> d \<le> ''2008-12-31'') \<and>
        (\<forall>j. [j, VText ''1999-12-31''] \<notin> set (rows t)))"
proof -
  let ?W = "script_world iso_libs ''2008-12-31'' ''2009-01-01'' ''2013-12-31''
              2008 2009 2013 early_src (notebook_world early_rows)"
  have run: "create_labels iso_libs (notebook_world early_rows)
     ''2008-12-31'' ''2009-01-01'' ''2013-12-31'' (cur (notebook_world early_rows)) =
     (?W, Inr (labels_table [(VInt 3, 0)]))"
    using notebook_run [OF scenario_years literal_ok_lits(1-3) early_source]
    by (simp only: early_labels)
  have v: "valid_date (1999, 12, 31)" "fst (1999 :: nat, 12 :: nat, 31 :: nat) < 2000"
    by (simp_all add: valid_date_def days_in_month_def)
  have m: "(VInt 1, VInt 1, VText ''2009-03-01'', VText ''1999-12-31'') \<in> set early_src"
    by (simp add: early_src_def)
  have d: "sql_date iso_libs (VText ''1999-12-31'') = Some ''1999-12-31''"
    by (simp add: iso_libs_def more_iso_date_lits)
  have c: "cur ?W = 0" by (simp add: notebook_cur)
  have s: "temp_db ?W 0 (release_dates_name 2008) =
             Some (release_table [(VInt 3, Some ''2003-01-01'')])"
    by (simp add: temp_db_script_world notebook_cur early_release)
  from historical_window_starts_2000_unquoted [OF run scenario_years early_source
      literal_ok_lits(1-3)]
  obtain t where t: "temp_db ?W 0 (release_dates_name 2008) = Some t"
    and a: "\<forall>r \<in> set (rows t). \<exists>i d. r = [i, VText d] \<and> ''2000-01-01'' \<le> d \<and> d \<le> ''2008-12-31''"
    and b: "\<forall>dt j. valid_date dt \<and> fst dt < 2000 \<longrightarrow> [j, VText (iso_text dt)] \<notin> set (rows t)"
    unfolding c by blast
  from t s have "t = release_table [(VInt 3, Some ''2003-01-01'')]" by simp
  then have e: "rows t = [[VInt 3, VText ''2003-01-01'']]"
    by (simp add: release_table_def of_text_def)
  from b v iso_text_lits(5) have "\<forall>j. [j, VText ''1999-12-31''] \<notin> set (rows t)" by metis
  with run scenario_years early_source literal_ok_lits(1-3) m d v(1) iso_text_lits(5) t e a
  show ?thesis by blast
qed

text \<open>
  C10. Every drop and every creation of \<^verbatim>\<open>create_labels\<close> goes through the global
  cursor: the store after the call does not depend on \<open>conn\<close>, and the temporary tables
  of other connections and the other database files are as before. \<open>conn\<close> is used for
  the final read only. So the table returned is the one just built when \<open>conn\<close> is on the
  cursor's database (and has no temporary table of the name), and when \<open>conn\<close> is on
  another database the call returns what that database held under the name before the
  call, or fails for want of it.
\<close>

theorem writes_through_cursor_read_through_conn:
  "fst (create_labels L w features_end prediction_start prediction_end conn) =
     fst (create_labels L w features_end prediction_start prediction_end (cur w)) \<and>
   (\<forall>c. c \<noteq> cur w \<longrightarrow>
      temp_db (fst (create_labels L w features_end prediction_start prediction_end conn)) c =
      temp_db w c) \<and>
   (\<forall>f. f \<noteq> db_of w (cur w) \<longrightarrow>
      main_db (fst (create_labels L w features_end prediction_start prediction_end conn)) f =
      main_db w f) \<and>
   (\<forall>w' df s e.
      create_labels L w features_end prediction_start prediction_end (cur w) = (w', Inr df) \<and>
      parse_year L prediction_start = Some s \<and> parse_year L prediction_end = Some e \<longrightarrow>
        snd (create_labels L w features_end prediction_start prediction_end conn) =
          read_sql (labels_name s e) conn w' \<and>
        (db_of w conn = db_of w (cur w) \<and>
         (conn = cur w \<or> temp_db w conn (labels_name s e) = None) \<longrightarrow>
           snd (create_labels L w features_end prediction_start prediction_end conn) = Inr df) \<and>
        (db_of w conn \<noteq> db_of w (cur w) \<longrightarrow>
           snd (create_labels L w features_end prediction_start prediction_end conn) =
             read_sql (labels_name s e) conn w))"
proof -
  let ?R = "\<lambda>c. create_labels L w features_end prediction_start prediction_end c"
  have frame: "elsewhere_same w (fst (?R conn))" by (rule elsewhere_same_create_labels)
  have 1: "fst (?R conn) = fst (?R (cur w))" by (rule fst_create_labels_conn)
  have 2: "\<forall>c. c \<noteq> cur w \<longrightarrow> temp_db (fst (?R conn)) c = temp_db w c"
    using frame by (simp add: elsewhere_same_def)
  have 3: "\<forall>f. f \<noteq> db_of w (cur w) \<longrightarrow> main_db (fst (?R conn)) f = main_db w f"
    using frame by (simp add: elsewhere_same_def)
  have 4: "snd (?R conn) = read_sql (labels_name s e) conn w' \<and>
        (db_of w conn = db_of w (cur w) \<and>
         (conn = cur w \<or> temp_db w conn (labels_name s e) = None) \<longrightarrow>
           snd (?R conn) = Inr df) \<and>
        (db_of w conn \<noteq> db_of w (cur w) \<longrightarrow>
           snd (?R conn) = read_sql (labels_name s e) conn w)"
    if h: "?R (cur w) = (w', Inr df) \<and> parse_year L prediction_start = Some s \<and>
           parse_year L prediction_end = Some e" for w' df s e
  proof -
    obtain x src where p: "parse_year L features_end = Some x"
      and src: "from_sentences w = Inr src"
      using create_labels_InrD [of L w features_end prediction_start prediction_end "cur w" w' df] h
      by blast
    from h have run: "?R (cur w) = (w', Inr df)" and ps: "parse_year L prediction_start = Some s"
      and pe: "parse_year L prediction_end = Some e" by simp_all
    note r = create_labels_success [OF run p ps pe src]
    have eq: "?R conn = (w', read_sql (labels_name s e) conn w')"
      using create_labels_eq [OF p ps pe r(5-7) src r(3,4), of conn] by (simp add: r(1))
    have df: "df = labels_table (labels_of L features_end prediction_start prediction_end src)"
      using run src by (rule create_labels_cur)
    have a: "snd (?R conn) = read_sql (labels_name s e) conn w'" by (simp add: eq)
    have b: "snd (?R conn) = Inr df"
      if "db_of w conn = db_of w (cur w) \<and> (conn = cur w \<or> temp_db w conn (labels_name s e) = None)"
      using that by (auto simp: a read_sql_def r(1) resolve_labels_script_world df)
    have c: "snd (?R conn) = read_sql (labels_name s e) conn w"
      if "db_of w conn \<noteq> db_of w (cur w)"
    proof -
      from that have "conn \<noteq> cur w" by auto
      with that have "resolve w' conn (labels_name s e) = resolve w conn (labels_name s e)"
        by (simp add: r(1) resolve_labels_script_world resolve_def [of w])
      then show ?thesis by (simp add: a read_sql_def)
    qed
    from a b c show ?thesis by blast
  qed
  from 1 2 3 4 show ?thesis by blast
qed

theorem writes_through_cursor_read_through_conn_witness:
  "create_labels iso_libs (notebook_world scenario_rows)
     ''2008-12-31'' ''2009-01-01'' ''2013-12-31'' (cur (notebook_world scenario_rows)) =
     (script_world iso_libs ''2008-12-31'' ''2009-01-01'' ''2013-12-31'' 2008 2009 2013
        scenario_src (notebook_world scenario_rows),
      Inr (labels_table [(VInt 1, 1), (VInt 2, 0)])) \<and>
   db_of (notebook_world scenario_rows) 1 \<noteq>
     db_of (notebook_world scenario_rows) (cur (notebook_world scenario_rows)) \<and>
   create_labels iso_libs (notebook_world scenario_rows)
     ''2008-12-31'' ''2009-01-01'' ''2013-12-31'' 1 =
     (script_world iso_libs ''2008-12-31'' ''2009-01-01'' ''2013-12-31'' 2008 2009 2013
        scenario_src (notebook_world scenario_rows),
      Inl (NoSuchTable ''recidivism_labels_2009_2013''))"
proof -
  let ?w = "notebook_world scenario_rows"
  let ?R = "\<lambda>c. create_labels iso_libs ?w ''2008-12-31'' ''2009-01-01'' ''2013-12-31'' c"
  have d: "db_of ?w 1 \<noteq> db_of ?w (cur ?w)"
    by (simp add: notebook_world_def)
  have n: "labels_name 2009 2013 = ''recidivism_labels_2009_2013''"
    by (simp add: labels_name_def year_names)
  have r: "read_sql ''recidivism_labels_2009_2013'' 1 ?w =
           Inl (NoSuchTable ''recidivism_labels_2009_2013'')"
    by (simp add: read_sql_def resolve_def notebook_world_def)
  note c10 = writes_through_cursor_read_through_conn [of iso_libs ?w "''2008-12-31''"
      "''2009-01-01''" "''2013-12-31''" 1]
  have 1: "fst (?R 1) = fst (?R (cur ?w))" using c10 by blast
  have 2: "snd (?R 1) = read_sql (labels_name 2009 2013) 1 ?w"
    using c10 scenario_run scenario_years(2,3) d by blast
  have "?R 1 = (fst (?R 1), snd (?R 1))" by simp
  also have "\<dots> = (fst (?R (cur ?w)), Inl (NoSuchTable ''recidivism_labels_2009_2013''))"
    by (simp only: 1 2 n r)
  finally show ?thesis using scenario_run d by simp
qed

end
